theory Spec2Isabelle
  imports Complex_Main "HOL-Library.Multiset"
begin

section \<open>Data model\<close>

text \<open>
  The TypeScript interfaces of \<^verbatim>\<open>core/types\<close>. Roots, digests, addresses and proof bytes
  are JavaScript strings and are compared with \<^verbatim>\<open>===\<close>/\<^verbatim>\<open>!==\<close>, that is, character by
  character. Fields of type \<^verbatim>\<open>number\<close> hold integers in every use the pipeline makes of
  them (indices, nonces, gas amounts); a field is modelled as the \<^typ>\<open>int\<close> it holds. A
  \<^verbatim>\<open>number\<close> is an IEEE-754 double, so the products, differences and sums the code forms
  from gas amounts are rounded to double precision; that arithmetic is \<open>number_mul\<close>,
  \<open>number_sub\<close> and \<open>number_add\<close> below. Counters and indices stay below \<open>2^53\<close>, where
  arithmetic on doubles is exact.
\<close>

record Transaction =
  tx_from :: string
  tx_to :: string
  tx_value :: string
  tx_data :: string
  nonce :: int
  gasLimit :: int
  gasPrice :: int

record StateTransitionProof =
  oldStateRoot :: string
  newStateRoot :: string
  pv_batchIndex :: int
  transactionCount :: int
  pv_transactionHashes :: "string list"

record ProofResult =
  proofId :: string
  pr_batchIndex :: int
  proofData :: string
  publicValues :: StateTransitionProof
  proofSize :: int
  generationTime :: int
  pr_timestamp :: int

record Batch =
  b_batchIndex :: int
  stateRoot :: string
  b_transactionHashes :: "string list"
  b_timestamp :: int
  finalized :: bool

record BatchConfig =
  maxTransactions :: int
  maxGasLimit :: int
  aggregationSize :: int
  batchInterval :: int

text \<open>
  Every \<^verbatim>\<open>throw new Error(msg)\<close> of the sources is \<open>Error msg\<close>; a property read on
  \<^verbatim>\<open>undefined\<close> is \<open>TypeError\<close>; whatever the settlement ledger rejects a call with is
  \<open>SettlementError\<close>. The names the specification uses for the two errors raised by the
  core itself are given as constants.
\<close>

datatype error = Error string | TypeError string | SyntaxError string | SettlementError string

definition InvalidTransition :: error where
  "InvalidTransition = Error ''Invalid state transition''"

definition EmptyPool :: error where
  "EmptyPool = Error ''No pending transactions to batch''"


section \<open>The settlement ledger\<close>

text \<open>
  \<^verbatim>\<open>RollupContract\<close> wraps an arbitrary contract address; the core only sees the promises
  its methods return. The wrapper is a record of operations over an abstract ledger state
  \<^typ>\<open>'l\<close>: a view returns a value or an error, a submission returns the ledger after the
  call or the error the call was rejected with (a rejected call leaves the ledger as it
  was).
\<close>

record 'l RollupContract =
  getCurrentStateRoot :: "'l \<Rightarrow> error + string"
  getCurrentBatchIndex :: "'l \<Rightarrow> error + int"
  getBatch :: "int \<Rightarrow> 'l \<Rightarrow> error + Batch"
  submitBatch :: "string \<Rightarrow> StateTransitionProof \<Rightarrow> string list \<Rightarrow> 'l \<Rightarrow> error + 'l"
  submitAggregatedBatch ::
    "string \<Rightarrow> StateTransitionProof list \<Rightarrow> string list \<Rightarrow> 'l \<Rightarrow> error + 'l"

subsection \<open>The repository's own ledger: \<^verbatim>\<open>ZKEVMRollup.sol\<close> with \<^verbatim>\<open>MockSP1Verifier.sol\<close>\<close>

text \<open>
  The contract state, with the verifier's \<^verbatim>\<open>validProof\<close> flag. \<^verbatim>\<open>processedProofs\<close> is keyed
  by \<^verbatim>\<open>keccak256(proof)\<close>; the model keys it by the proof bytes (the hash taken as
  injective). \<^verbatim>\<open>block.timestamp\<close> is the parameter \<open>ts\<close>.
\<close>

record ZKEVMRollup =
  currentStateRoot :: string
  currentBatchIndex :: int
  batches :: "int \<rightharpoonup> Batch"
  processedProofs :: "string set"
  paused :: bool
  validProof :: bool

definition sol_submitBatch ::
  "int \<Rightarrow> string \<Rightarrow> StateTransitionProof \<Rightarrow> string list \<Rightarrow> ZKEVMRollup \<Rightarrow> error + ZKEVMRollup" where
  "sol_submitBatch ts proof transition vKeyHash c =
     (if paused c then Inl (SettlementError ''EnforcedPause'')
      else if proof \<in> processedProofs c then Inl (SettlementError ''ProofAlreadyProcessed'')
      else if oldStateRoot transition \<noteq> currentStateRoot c
        then Inl (SettlementError ''InvalidStateRoot'')
      else if pv_batchIndex transition \<noteq> currentBatchIndex c
        then Inl (SettlementError ''InvalidBatchIndex'')
      else if \<not> validProof c then Inl (SettlementError ''InvalidProof'')
      else Inr (c\<lparr>processedProofs := insert proof (processedProofs c),
                 batches := (batches c)(pv_batchIndex transition \<mapsto>
                    \<lparr>b_batchIndex = pv_batchIndex transition,
                     stateRoot = newStateRoot transition,
                     b_transactionHashes = pv_transactionHashes transition,
                     b_timestamp = ts, finalized = True\<rparr>),
                 currentStateRoot := newStateRoot transition,
                 currentBatchIndex := currentBatchIndex c + 1\<rparr>))"

text \<open>The first loop of \<^verbatim>\<open>submitAggregatedBatch\<close>: the chain and index check.\<close>

fun checkTransitions ::
  "string \<Rightarrow> int \<Rightarrow> StateTransitionProof list \<Rightarrow> error + (string \<times> int)" where
  "checkTransitions expectedOldRoot expectedBatchIndex [] =
     Inr (expectedOldRoot, expectedBatchIndex)"
| "checkTransitions expectedOldRoot expectedBatchIndex (transition # rest) =
     (if oldStateRoot transition \<noteq> expectedOldRoot
        then Inl (SettlementError ''InvalidStateRoot'')
      else if pv_batchIndex transition \<noteq> expectedBatchIndex
        then Inl (SettlementError ''InvalidBatchIndex'')
      else checkTransitions (newStateRoot transition) (expectedBatchIndex + 1) rest)"

text \<open>The second loop: one finalized batch per transition.\<close>

fun storeBatches ::
  "int \<Rightarrow> StateTransitionProof list \<Rightarrow> (int \<rightharpoonup> Batch) \<Rightarrow> (int \<rightharpoonup> Batch)" where
  "storeBatches ts [] bs = bs"
| "storeBatches ts (transition # rest) bs =
     storeBatches ts rest (bs(pv_batchIndex transition \<mapsto>
        \<lparr>b_batchIndex = pv_batchIndex transition,
         stateRoot = newStateRoot transition,
         b_transactionHashes = pv_transactionHashes transition,
         b_timestamp = ts, finalized = True\<rparr>))"

definition sol_submitAggregatedBatch ::
  "int \<Rightarrow> string \<Rightarrow> StateTransitionProof list \<Rightarrow> string list \<Rightarrow> ZKEVMRollup
     \<Rightarrow> error + ZKEVMRollup" where
  "sol_submitAggregatedBatch ts proof transitions vKeyHash c =
     (if paused c then Inl (SettlementError ''EnforcedPause'')
      else if proof \<in> processedProofs c then Inl (SettlementError ''ProofAlreadyProcessed'')
      else case checkTransitions (currentStateRoot c) (currentBatchIndex c) transitions of
        Inl e \<Rightarrow> Inl e
      | Inr (expectedOldRoot, expectedBatchIndex) \<Rightarrow>
          if \<not> validProof c then Inl (SettlementError ''InvalidProof'')
          else if transitions = [] then Inl (SettlementError ''Panic(0x11)'')
          else Inr (c\<lparr>processedProofs := insert proof (processedProofs c),
                     batches := storeBatches ts transitions (batches c),
                     currentStateRoot := newStateRoot (last transitions),
                     currentBatchIndex := expectedBatchIndex\<rparr>))"

definition sol_getBatch :: "int \<Rightarrow> ZKEVMRollup \<Rightarrow> error + Batch" where
  "sol_getBatch i c =
     (case batches c i of
        Some b \<Rightarrow> Inr b
      | None \<Rightarrow> Inr \<lparr>b_batchIndex = i, stateRoot = [], b_transactionHashes = [],
                     b_timestamp = 0, finalized = False\<rparr>)"

definition zkevm :: "int \<Rightarrow> ZKEVMRollup RollupContract" where
  "zkevm ts =
     \<lparr>getCurrentStateRoot = (\<lambda>c. Inr (currentStateRoot c)),
      getCurrentBatchIndex = (\<lambda>c. Inr (currentBatchIndex c)),
      getBatch = sol_getBatch,
      submitBatch = sol_submitBatch ts,
      submitAggregatedBatch = sol_submitAggregatedBatch ts\<rparr>"

definition deployed :: "string \<Rightarrow> ZKEVMRollup" where
  "deployed initialStateRoot =
     \<lparr>currentStateRoot = initialStateRoot, currentBatchIndex = 0, batches = Map.empty,
      processedProofs = {}, paused = False, validProof = True\<rparr>"


section \<open>StateRootManager\<close>

record StateRootManager =
  stateHistory :: "int \<rightharpoonup> string"
  batchHistory :: "int \<rightharpoonup> Batch"
  stateStorage :: "string \<rightharpoonup> string"

definition new_StateRootManager :: StateRootManager where
  "new_StateRootManager =
     \<lparr>stateHistory = Map.empty, batchHistory = Map.empty, stateStorage = Map.empty\<rparr>"

definition verifyStateTransition :: "string \<Rightarrow> string \<Rightarrow> ProofResult \<Rightarrow> bool" where
  "verifyStateTransition oldRoot newRoot proofResult =
     (let expectedOldRoot = oldStateRoot (publicValues proofResult);
          expectedNewRoot = newStateRoot (publicValues proofResult)
      in if oldRoot \<noteq> expectedOldRoot then False
         else if newRoot \<noteq> expectedNewRoot then False
         else True)"

text \<open>
  The two history writes made for one accepted proof; \<open>now\<close> is
  \<^verbatim>\<open>Math.floor(Date.now() / 1000)\<close>.
\<close>

definition recordProof :: "int \<Rightarrow> ProofResult \<Rightarrow> StateRootManager \<Rightarrow> StateRootManager" where
  "recordProof now proof m =
     m\<lparr>stateHistory := (stateHistory m)(pr_batchIndex proof \<mapsto> newStateRoot (publicValues proof)),
       batchHistory := (batchHistory m)(pr_batchIndex proof \<mapsto>
          \<lparr>b_batchIndex = pr_batchIndex proof,
           stateRoot = newStateRoot (publicValues proof),
           b_transactionHashes = pv_transactionHashes (publicValues proof),
           b_timestamp = now, finalized = True\<rparr>)\<rparr>"

text \<open>
  \<^verbatim>\<open>submitStateUpdate\<close>: the manager and the ledger go in and come out; the first component
  is the promise's outcome.
\<close>

definition submitStateUpdate ::
  "'l RollupContract \<Rightarrow> int \<Rightarrow> ProofResult \<Rightarrow> string list \<Rightarrow> StateRootManager \<times> 'l
     \<Rightarrow> (error + bool) \<times> StateRootManager \<times> 'l" where
  "submitStateUpdate rc now proofResult vKeyHash = (\<lambda>(m, l).
     case getCurrentStateRoot rc l of
       Inl e \<Rightarrow> (Inl e, m, l)
     | Inr currentRoot \<Rightarrow>
         if \<not> verifyStateTransition currentRoot (newStateRoot (publicValues proofResult))
                 proofResult
         then (Inl (Error ''Invalid state transition''), m, l)
         else (case submitBatch rc (proofData proofResult) (publicValues proofResult) vKeyHash l of
                 Inl e \<Rightarrow> (Inl e, m, l)
               | Inr l' \<Rightarrow> (Inr True, recordProof now proofResult m, l')))"

text \<open>
  \<^verbatim>\<open>submitAggregatedStateUpdates\<close>: \<^verbatim>\<open>currentRoot\<close> is fetched and never read again;
  \<^verbatim>\<open>proofResults[0].proofData\<close> on an empty array throws inside the \<^verbatim>\<open>try\<close>.
\<close>

definition submitAggregatedStateUpdates ::
  "'l RollupContract \<Rightarrow> int \<Rightarrow> ProofResult list \<Rightarrow> string list \<Rightarrow> StateRootManager \<times> 'l
     \<Rightarrow> (error + bool) \<times> StateRootManager \<times> 'l" where
  "submitAggregatedStateUpdates rc now proofResults vKeyHash = (\<lambda>(m, l).
     case getCurrentStateRoot rc l of
       Inl e \<Rightarrow> (Inl e, m, l)
     | Inr currentRoot \<Rightarrow>
         (let transitions = map publicValues proofResults in
          case proofResults of
            [] \<Rightarrow> (Inl (TypeError ''Cannot read properties of undefined''), m, l)
          | first # _ \<Rightarrow>
              (case submitAggregatedBatch rc (proofData first) transitions vKeyHash l of
                 Inl e \<Rightarrow> (Inl e, m, l)
               | Inr l' \<Rightarrow> (Inr True, foldl (\<lambda>m' proof. recordProof now proof m') m proofResults, l'))))"

definition getStateHistory :: "StateRootManager \<Rightarrow> (int \<rightharpoonup> string)" where
  "getStateHistory m = stateHistory m"

definition getBatchHistory :: "StateRootManager \<Rightarrow> (int \<rightharpoonup> Batch)" where
  "getBatchHistory m = batchHistory m"


section \<open>BatchProcessor\<close>

text \<open>
  Library functions the processor calls and whose code is not part of the repository:
  \<^verbatim>\<open>ethers.isAddress\<close>, \<^verbatim>\<open>ethers.keccak256\<close> (applied to the UTF-8 bytes of a string)
  and the \<^verbatim>\<open>BigInt\<close> constructor on strings (\<open>None\<close> when it throws a SyntaxError).
\<close>

record platform =
  isAddress :: "string \<Rightarrow> bool"
  keccak256 :: "string \<Rightarrow> string"
  BigInt :: "string \<Rightarrow> int option"

record BatchStat =
  st_transactionCount :: int
  st_gasUsed :: int
  st_timestamp :: int

record BatchProcessor =
  config :: BatchConfig
  pendingTransactions :: "Transaction list"
  batchIndex :: int
  processing :: bool
  transactionHashes :: "string set"
  batchStats :: "int \<rightharpoonup> BatchStat"

definition defaultConfig :: BatchConfig where
  "defaultConfig = \<lparr>maxTransactions = 100, maxGasLimit = 10000000, aggregationSize = 5,
                    batchInterval = 30000\<rparr>"

definition new_BatchProcessor :: "BatchConfig \<Rightarrow> BatchProcessor" where
  "new_BatchProcessor cfg =
     \<lparr>config = cfg, pendingTransactions = [], batchIndex = 0, processing = False,
      transactionHashes = {}, batchStats = Map.empty\<rparr>"

subsection \<open>Digest of a transaction\<close>

text \<open>
  \<^verbatim>\<open>String(n)\<close> for an integer \<open>n\<close>, and \<^verbatim>\<open>JSON.stringify\<close> of the seven-field object
  built by \<^verbatim>\<open>generateTransactionHash\<close>, keys in the order of the source. Of the
  characters JSON escapes, the quote and the backslash are escaped here.
\<close>

fun string_of_nat :: "nat \<Rightarrow> string" where
  "string_of_nat n =
     (if n < 10 then [''0123456789'' ! n]
      else string_of_nat (n div 10) @ [''0123456789'' ! (n mod 10)])"

declare string_of_nat.simps [simp del]

definition string_of_int :: "int \<Rightarrow> string" where
  "string_of_int i = (if i < 0 then CHR ''-'' # string_of_nat (nat (- i)) else string_of_nat (nat i))"

definition json_string :: "string \<Rightarrow> string" where
  "json_string s =
     CHR 0x22 # concat (map (\<lambda>c. if c = CHR 0x22 \<or> c = CHR 0x5C then [CHR 0x5C, c] else [c]) s)
       @ [CHR 0x22]"

definition json_key :: "string \<Rightarrow> string" where
  "json_key k = json_string k @ '':''"

definition JSON_stringify :: "Transaction \<Rightarrow> string" where
  "JSON_stringify tx =
     ''{'' @ json_key ''from'' @ json_string (tx_from tx)
     @ '','' @ json_key ''to'' @ json_string (tx_to tx)
     @ '','' @ json_key ''value'' @ json_string (tx_value tx)
     @ '','' @ json_key ''data'' @ json_string (tx_data tx)
     @ '','' @ json_key ''nonce'' @ string_of_int (nonce tx)
     @ '','' @ json_key ''gasLimit'' @ string_of_int (gasLimit tx)
     @ '','' @ json_key ''gasPrice'' @ string_of_int (gasPrice tx)
     @ ''}''"

definition generateTransactionHash :: "platform \<Rightarrow> Transaction \<Rightarrow> string" where
  "generateTransactionHash pf tx = keccak256 pf (JSON_stringify tx)"

subsection \<open>Intake\<close>

definition startsWith :: "string \<Rightarrow> string \<Rightarrow> bool" where
  "startsWith s pre = (take (length pre) s = pre)"

text \<open>\<^verbatim>\<open>validateTransaction\<close>: \<open>None\<close> when nothing is thrown.\<close>

definition validateTransaction :: "platform \<Rightarrow> BatchConfig \<Rightarrow> Transaction \<Rightarrow> error option" where
  "validateTransaction pf cfg tx =
     (if \<not> isAddress pf (tx_from tx) then Some (Error ''Invalid from address'')
      else if \<not> isAddress pf (tx_to tx) then Some (Error ''Invalid to address'')
      else if gasLimit tx > maxGasLimit cfg then Some (Error ''Gas limit exceeds maximum allowed'')
      else if gasLimit tx < 21000 then Some (Error ''Gas limit below minimum required'')
      else if nonce tx < 0 then Some (Error ''Nonce must be non-negative'')
      else if gasPrice tx < 0 then Some (Error ''Gas price must be non-negative'')
      else if tx_value tx \<noteq> [] \<and> BigInt pf (tx_value tx) = None
        then Some (SyntaxError ''Cannot convert to a BigInt'')
      else if tx_value tx \<noteq> [] \<and> the (BigInt pf (tx_value tx)) < 0
        then Some (Error ''Value must be non-negative'')
      else if tx_data tx \<noteq> [] \<and> \<not> startsWith (tx_data tx) ''0x''
        then Some (Error ''Data must be a hex string'')
      else None)"

definition addTransaction ::
  "platform \<Rightarrow> Transaction \<Rightarrow> BatchProcessor \<Rightarrow> (error + unit) \<times> BatchProcessor" where
  "addTransaction pf tx bp =
     (case validateTransaction pf (config bp) tx of
        Some e \<Rightarrow> (Inl e, bp)
      | None \<Rightarrow>
          (let txHash = generateTransactionHash pf tx in
           if txHash \<in> transactionHashes bp then (Inr (), bp)
           else (Inr (), bp\<lparr>pendingTransactions := pendingTransactions bp @ [tx],
                              transactionHashes := insert txHash (transactionHashes bp)\<rparr>)))"

text \<open>
  \<^verbatim>\<open>addTransactions\<close>: the loop collects the accepted transactions in \<^verbatim>\<open>validTxs\<close> and
  records their digests as it goes; the queue is extended once, after the loop.
\<close>

fun addTransactions_loop ::
  "platform \<Rightarrow> BatchConfig \<Rightarrow> Transaction list \<Rightarrow> Transaction list \<times> string set
     \<Rightarrow> Transaction list \<times> string set" where
  "addTransactions_loop pf cfg [] (validTxs, hashes) = (validTxs, hashes)"
| "addTransactions_loop pf cfg (tx # txs) (validTxs, hashes) =
     (case validateTransaction pf cfg tx of
        Some e \<Rightarrow> addTransactions_loop pf cfg txs (validTxs, hashes)
      | None \<Rightarrow>
          (let txHash = generateTransactionHash pf tx in
           if txHash \<notin> hashes
           then addTransactions_loop pf cfg txs (validTxs @ [tx], insert txHash hashes)
           else addTransactions_loop pf cfg txs (validTxs, hashes)))"

definition addTransactions :: "platform \<Rightarrow> Transaction list \<Rightarrow> BatchProcessor \<Rightarrow> BatchProcessor" where
  "addTransactions pf txs bp =
     (let (validTxs, hashes) = addTransactions_loop pf (config bp) txs ([], transactionHashes bp)
      in bp\<lparr>pendingTransactions := pendingTransactions bp @ validTxs,
            transactionHashes := hashes\<rparr>)"

definition getPendingTransactionCount :: "BatchProcessor \<Rightarrow> int" where
  "getPendingTransactionCount bp = int (length (pendingTransactions bp))"

definition getBatchIndex :: "BatchProcessor \<Rightarrow> int" where
  "getBatchIndex bp = batchIndex bp"

definition isProcessing :: "BatchProcessor \<Rightarrow> bool" where
  "isProcessing bp = processing bp"

definition clearPendingTransactions :: "BatchProcessor \<Rightarrow> BatchProcessor" where
  "clearPendingTransactions bp = bp\<lparr>pendingTransactions := [], transactionHashes := {}\<rparr>"

text \<open>\<^verbatim>\<open>updateConfig\<close> with a \<^verbatim>\<open>Partial<BatchConfig>\<close>: the fields present replace the old ones.\<close>

record PartialBatchConfig =
  new_maxTransactions :: "int option"
  new_maxGasLimit :: "int option"
  new_aggregationSize :: "int option"
  new_batchInterval :: "int option"

definition updateConfig :: "PartialBatchConfig \<Rightarrow> BatchProcessor \<Rightarrow> BatchProcessor" where
  "updateConfig newConfig bp =
     bp\<lparr>config :=
        \<lparr>maxTransactions = (case new_maxTransactions newConfig of
             Some v \<Rightarrow> v | None \<Rightarrow> maxTransactions (config bp)),
         maxGasLimit = (case new_maxGasLimit newConfig of
             Some v \<Rightarrow> v | None \<Rightarrow> maxGasLimit (config bp)),
         aggregationSize = (case new_aggregationSize newConfig of
             Some v \<Rightarrow> v | None \<Rightarrow> aggregationSize (config bp)),
         batchInterval = (case new_batchInterval newConfig of
             Some v \<Rightarrow> v | None \<Rightarrow> batchInterval (config bp))\<rparr>\<rparr>"

subsection \<open>Batch formation\<close>

text \<open>
  \<^verbatim>\<open>Array.prototype.sort\<close> with a comparator: a stable sort, which puts \<open>a\<close> before \<open>b\<close>
  when \<open>cmp a b < 0\<close> and keeps the order of the array when \<open>cmp a b = 0\<close>. The model
  inserts each element in front of the sorted rest, before the first element it does not
  have to follow.
\<close>

fun insert_cmp :: "('a \<Rightarrow> 'a \<Rightarrow> int) \<Rightarrow> 'a \<Rightarrow> 'a list \<Rightarrow> 'a list" where
  "insert_cmp cmp x [] = [x]"
| "insert_cmp cmp x (y # ys) =
     (if cmp x y \<le> 0 then x # y # ys else y # insert_cmp cmp x ys)"

fun js_sort :: "('a \<Rightarrow> 'a \<Rightarrow> int) \<Rightarrow> 'a list \<Rightarrow> 'a list" where
  "js_sort cmp [] = []"
| "js_sort cmp (x # xs) = insert_cmp cmp x (js_sort cmp xs)"

text \<open>
  Arithmetic on \<^verbatim>\<open>number\<close>s that hold integers. The exact result is an integer; the double
  the operation returns is that integer rounded to 53 significant bits, to the nearest
  such value and to the one with an even significand on a tie. \<open>excess n\<close> is the number
  of low bits that \<open>n\<close> has beyond 53. A result whose rounded magnitude reaches \<open>2^1024\<close>
  is \<^verbatim>\<open>Infinity\<close> or \<^verbatim>\<open>-Infinity\<close>, which the model writes as \<open>2^1024\<close> and \<open>- 2^1024\<close>: every
  finite double lies strictly between them. \<^verbatim>\<open>Infinity - Infinity\<close> is \<^verbatim>\<open>NaN\<close>, which the sort
  takes for 0, the value the model gives.
\<close>

fun excess :: "nat \<Rightarrow> nat" where
  "excess n = (if n < 2 ^ 53 then 0 else Suc (excess (n div 2)))"

declare excess.simps [simp del]

definition round53 :: "nat \<Rightarrow> nat" where
  "round53 n =
     (let k = excess n; q = n div 2 ^ k; r = n mod 2 ^ k
      in (if 2 * r > 2 ^ k \<or> (2 * r = 2 ^ k \<and> odd q) then q + 1 else q) * 2 ^ k)"

definition double_of :: "int \<Rightarrow> int" where
  "double_of x =
     (let r = int (round53 (nat \<bar>x\<bar>))
      in if r \<ge> 2 ^ 1024 then sgn x * 2 ^ 1024 else sgn x * r)"

definition number_mul :: "int \<Rightarrow> int \<Rightarrow> int" where
  "number_mul a b = double_of (a * b)"

definition number_sub :: "int \<Rightarrow> int \<Rightarrow> int" where
  "number_sub a b = double_of (a - b)"

definition number_add :: "int \<Rightarrow> int \<Rightarrow> int" where
  "number_add a b = double_of (a + b)"

definition optimizeBatch :: "Transaction list \<Rightarrow> Transaction list" where
  "optimizeBatch transactions =
     js_sort (\<lambda>a b. let gasA = number_mul (gasLimit a) (gasPrice a);
                         gasB = number_mul (gasLimit b) (gasPrice b)
                     in number_sub gasB gasA) transactions"

definition calculateGasUsage :: "Transaction list \<Rightarrow> int" where
  "calculateGasUsage transactions =
     foldl (\<lambda>total tx. number_add total (gasLimit tx)) 0 transactions"

definition estimateCurrentGasPrice :: rat where
  "estimateCurrentGasPrice = 10"

definition calculateOptimalBatchSize :: "BatchProcessor \<Rightarrow> int" where
  "calculateOptimalBatchSize bp =
     (let baseSize = min (maxTransactions (config bp)) (int (length (pendingTransactions bp)));
          currentGasPrice = estimateCurrentGasPrice;
          gasMultiplier = max (1 / 2) (min (3 / 2) (1 / (currentGasPrice / 10)));
          optimalSize = \<lfloor>of_int baseSize * gasMultiplier\<rfloor>
      in max 1 (min optimalSize (maxTransactions (config bp))))"

text \<open>
  \<^verbatim>\<open>createBatch\<close> is an \<^verbatim>\<open>async\<close> function with one \<^verbatim>\<open>await\<close>. What runs before the
  \<^verbatim>\<open>await\<close> runs at the call: the emptiness check, the drain, the sort, and the call of
  \<^verbatim>\<open>generateProofForBatch\<close> with the value \<^verbatim>\<open>this.batchIndex\<close> has at that moment. The
  suspended call is a \<open>PendingBatch\<close>: the request handed to the Prover and the locals
  the continuation reads. What follows the \<^verbatim>\<open>await\<close> runs when the Prover's promise
  settles, on the processor as it is then.
\<close>

record PendingBatch =
  req_transactions :: "Transaction list"
  req_batchIndex :: int
  pb_gasUsage :: int

definition createBatch_begin :: "BatchProcessor \<Rightarrow> error + (PendingBatch \<times> BatchProcessor)" where
  "createBatch_begin bp =
     (if length (pendingTransactions bp) = 0 then Inl (Error ''No pending transactions to batch'')
      else
        (let batchSize = calculateOptimalBatchSize bp;
             batchTransactions = take (nat batchSize) (pendingTransactions bp);
             bp' = bp\<lparr>pendingTransactions := drop (nat batchSize) (pendingTransactions bp)\<rparr>;
             optimizedTransactions = optimizeBatch batchTransactions;
             gasUsage = calculateGasUsage optimizedTransactions
         in Inr (\<lparr>req_transactions = optimizedTransactions, req_batchIndex = batchIndex bp',
                  pb_gasUsage = gasUsage\<rparr>, bp')))"

definition createBatch_resume ::
  "int \<Rightarrow> PendingBatch \<Rightarrow> error + ProofResult \<Rightarrow> BatchProcessor
     \<Rightarrow> (error + ProofResult) \<times> BatchProcessor" where
  "createBatch_resume now pb outcome bp =
     (case outcome of
        Inl e \<Rightarrow> (Inl e, bp)
      | Inr proof \<Rightarrow>
          (Inr proof,
           bp\<lparr>batchStats := (batchStats bp)(batchIndex bp \<mapsto>
                  \<lparr>st_transactionCount = int (length (req_transactions pb)),
                   st_gasUsed = pb_gasUsage pb, st_timestamp = now\<rparr>),
              batchIndex := batchIndex bp + 1\<rparr>))"

text \<open>
  The Prover, \<^verbatim>\<open>generateProofForBatch\<close>, is a collaborator: a function from the request
  to the outcome of its promise. \<open>createBatch\<close> is a call that nothing interleaves with.
\<close>

type_synonym prover = "Transaction list \<Rightarrow> int \<Rightarrow> error + ProofResult"

definition createBatch ::
  "prover \<Rightarrow> int \<Rightarrow> BatchProcessor \<Rightarrow> (error + ProofResult) \<times> BatchProcessor" where
  "createBatch prover now bp =
     (case createBatch_begin bp of
        Inl e \<Rightarrow> (Inl e, bp)
      | Inr (pb, bp') \<Rightarrow>
          createBatch_resume now pb (prover (req_transactions pb) (req_batchIndex pb)) bp')"


text \<open>
  \<^verbatim>\<open>initialize\<close> of the state manager loads the batches below the ledger's current index,
  skipping those whose read fails; \<^verbatim>\<open>initialize\<close> of the processor then takes that index
  as its counter.
\<close>

fun loadBatches ::
  "'l RollupContract \<Rightarrow> 'l \<Rightarrow> int list \<Rightarrow> StateRootManager \<Rightarrow> StateRootManager" where
  "loadBatches rc l [] m = m"
| "loadBatches rc l (i # rest) m =
     (case getBatch rc i l of
        Inl e \<Rightarrow> loadBatches rc l rest m
      | Inr batch \<Rightarrow>
          loadBatches rc l rest
            (m\<lparr>stateHistory := (stateHistory m)(i \<mapsto> stateRoot batch),
               batchHistory := (batchHistory m)(i \<mapsto>
                  \<lparr>b_batchIndex = i, stateRoot = stateRoot batch,
                   b_transactionHashes = b_transactionHashes batch,
                   b_timestamp = b_timestamp batch, finalized = finalized batch\<rparr>)\<rparr>))"

definition initializeStateRootManager ::
  "'l RollupContract \<Rightarrow> 'l \<Rightarrow> StateRootManager \<Rightarrow> error + StateRootManager" where
  "initializeStateRootManager rc l m =
     (case getCurrentBatchIndex rc l of
        Inl e \<Rightarrow> Inl e
      | Inr currentBatch \<Rightarrow> Inr (loadBatches rc l [0 .. currentBatch - 1] m))"

definition initialize ::
  "'l RollupContract \<Rightarrow> 'l \<Rightarrow> BatchProcessor \<times> StateRootManager
     \<Rightarrow> error + BatchProcessor \<times> StateRootManager" where
  "initialize rc l = (\<lambda>(bp, m).
     case initializeStateRootManager rc l m of
       Inl e \<Rightarrow> Inl e
     | Inr m' \<Rightarrow>
         (case getCurrentBatchIndex rc l of
            Inl e \<Rightarrow> Inl e
          | Inr currentBatch \<Rightarrow> Inr (bp\<lparr>batchIndex := currentBatch\<rparr>, m')))"

subsection \<open>Posting\<close>

text \<open>
  \<^verbatim>\<open>estimateOptimalGasPrice\<close> and \<^verbatim>\<open>getGasEstimate\<close> both return a \<^verbatim>\<open>bigint\<close>. Each asks
  the provider or the contract for a value inside a \<^verbatim>\<open>try\<close> and scales it with
  \<^verbatim>\<open>.mul(...).div(...)\<close>; a \<^verbatim>\<open>bigint\<close> has no method \<^verbatim>\<open>mul\<close>, so the \<^verbatim>\<open>try\<close> block throws
  and the \<^verbatim>\<open>catch\<close> returns the fallback: 10 gwei for the price, 2000000 for the limit.
\<close>

definition bigint_mul :: "int \<Rightarrow> int \<Rightarrow> error + int" where
  "bigint_mul x y = Inl (TypeError ''mul is not a function'')"

definition estimateOptimalGasPrice :: int where
  "estimateOptimalGasPrice = 10000000000"

definition getGasEstimate :: int where
  "getGasEstimate = 2000000"

text \<open>
  \<^verbatim>\<open>postBatchToL1\<close> only logs the two estimates and stores them in a local that is never
  read; what remains is the call of the state manager, whose error is rethrown.
  \<^verbatim>\<open>postAggregatedBatchesToL1\<close> scales the gas limit itself, with
  \<^verbatim>\<open>baseGasLimit.mul(BigInt(proofResults.length))\<close>, inside its \<^verbatim>\<open>try\<close> and before the call
  of the state manager: the \<^verbatim>\<open>TypeError\<close> is caught, logged and rethrown, and the state
  manager is not reached.
\<close>

definition postBatchToL1 ::
  "'l RollupContract \<Rightarrow> int \<Rightarrow> ProofResult \<Rightarrow> string list \<Rightarrow> StateRootManager \<times> 'l
     \<Rightarrow> (error + bool) \<times> StateRootManager \<times> 'l" where
  "postBatchToL1 rc now proofResult vKeyHash w =
     (case submitStateUpdate rc now proofResult vKeyHash w of
        (Inl e, w') \<Rightarrow> (Inl e, w')
      | (Inr _, w') \<Rightarrow> (Inr True, w'))"

definition postAggregatedBatchesToL1 ::
  "'l RollupContract \<Rightarrow> int \<Rightarrow> ProofResult list \<Rightarrow> string list \<Rightarrow> StateRootManager \<times> 'l
     \<Rightarrow> (error + bool) \<times> StateRootManager \<times> 'l" where
  "postAggregatedBatchesToL1 rc now proofResults vKeyHash w =
     (let l1GasPrice = estimateOptimalGasPrice;
          baseGasLimit = getGasEstimate
      in case bigint_mul baseGasLimit (int (length proofResults)) of
           Inl e \<Rightarrow> (Inl e, w)
         | Inr l1GasLimit \<Rightarrow>
             (case submitAggregatedStateUpdates rc now proofResults vKeyHash w of
                (Inl e, w') \<Rightarrow> (Inl e, w')
              | (Inr _, w') \<Rightarrow> (Inr True, w')))"

text \<open>
  In the definitions that follow \<open>now\<close> is the clock \<^verbatim>\<open>Date.now()\<close>, in milliseconds:
  \<^verbatim>\<open>createBatch\<close> stores it in the batch statistics as it is, the state manager and the
  sequencer store \<^verbatim>\<open>Math.floor(Date.now() / 1000)\<close>.
\<close>

definition createAndPostBatch ::
  "'l RollupContract \<Rightarrow> prover \<Rightarrow> int \<Rightarrow> string list \<Rightarrow> BatchProcessor \<times> StateRootManager \<times> 'l
     \<Rightarrow> (error + ProofResult) \<times> BatchProcessor \<times> StateRootManager \<times> 'l" where
  "createAndPostBatch rc prover now vKeyHash = (\<lambda>(bp, w).
     case createBatch prover now bp of
       (Inl e, bp') \<Rightarrow> (Inl e, bp', w)
     | (Inr proof, bp') \<Rightarrow>
         (case postBatchToL1 rc (now div 1000) proof vKeyHash w of
            (Inl e, w') \<Rightarrow> (Inl e, bp', w')
          | (Inr _, w') \<Rightarrow> (Inr proof, bp', w')))"

subsection \<open>\<^verbatim>\<open>processPendingTransactions\<close>\<close>

text \<open>
  \<^verbatim>\<open>Math.min(maxConcurrentBatches, Math.ceil(pending / maxTransactions))\<close>, evaluated inside
  the \<^verbatim>\<open>while\<close> loop, where the queue is not empty: a zero divisor gives \<^verbatim>\<open>Infinity\<close>.
\<close>

definition batchCount :: "BatchProcessor \<Rightarrow> int" where
  "batchCount bp =
     (let maxConcurrentBatches = 3 in
      if maxTransactions (config bp) = 0 then maxConcurrentBatches
      else min maxConcurrentBatches
             \<lceil>(of_int (int (length (pendingTransactions bp))) :: rat)
                 / of_int (maxTransactions (config bp))\<rceil>)"

text \<open>
  The \<^verbatim>\<open>for\<close> loop calls \<^verbatim>\<open>createBatch\<close> up to \<^verbatim>\<open>batchCount\<close> times and collects the
  promises without awaiting them: each call runs up to its \<^verbatim>\<open>await\<close>. A call that throws
  before its \<^verbatim>\<open>await\<close> is a rejected promise.
\<close>

fun launchBatches :: "nat \<Rightarrow> BatchProcessor \<Rightarrow> (error + PendingBatch) list \<times> BatchProcessor" where
  "launchBatches 0 bp = ([], bp)"
| "launchBatches (Suc n) bp =
     (if length (pendingTransactions bp) > 0 then
        (case createBatch_begin bp of
           Inl e \<Rightarrow> (let (ps, bp'') = launchBatches n bp in (Inl e # ps, bp''))
         | Inr (pb, bp') \<Rightarrow> (let (ps, bp'') = launchBatches n bp' in (Inr pb # ps, bp'')))
      else ([], bp))"

text \<open>
  \<^verbatim>\<open>await Promise.all(batchPromises)\<close>: the Prover's promises settle and the continuation
  of each \<^verbatim>\<open>createBatch\<close> runs, here in the order the calls were made; the result is the
  list of proofs, or the first rejection.
\<close>

fun settleAll ::
  "prover \<Rightarrow> int \<Rightarrow> (error + PendingBatch) list \<Rightarrow> BatchProcessor
     \<Rightarrow> (error + ProofResult) list \<times> BatchProcessor" where
  "settleAll prover now [] bp = ([], bp)"
| "settleAll prover now (Inl e # ps) bp =
     (let (rs, bp') = settleAll prover now ps bp in (Inl e # rs, bp'))"
| "settleAll prover now (Inr pb # ps) bp =
     (let (r, bp1) = createBatch_resume now pb (prover (req_transactions pb) (req_batchIndex pb)) bp;
          (rs, bp2) = settleAll prover now ps bp1
      in (r # rs, bp2))"

fun promiseAll :: "(error + 'a) list \<Rightarrow> error + 'a list" where
  "promiseAll [] = Inr []"
| "promiseAll (Inl e # rs) = Inl e"
| "promiseAll (Inr v # rs) = (case promiseAll rs of Inl e \<Rightarrow> Inl e | Inr vs \<Rightarrow> Inr (v # vs))"

text \<open>
  The \<^verbatim>\<open>while\<close> loop, entered with the promises of one round launched. A non-positive
  \<^verbatim>\<open>maxTransactions\<close> can keep the loop from draining anything, so the loop takes fuel:
  \<open>None\<close> is a run that has not returned within it.
\<close>

fun processLoop ::
  "nat \<Rightarrow> 'l RollupContract \<Rightarrow> prover \<Rightarrow> int \<Rightarrow> string list \<Rightarrow> (error + PendingBatch) list
     \<Rightarrow> ProofResult list \<Rightarrow> BatchProcessor \<times> StateRootManager \<times> 'l
     \<Rightarrow> (error + ProofResult list) option \<times> BatchProcessor \<times> StateRootManager \<times> 'l" where
  "processLoop 0 rc prover now vKeyHash promises allProofs st = (None, st)"
| "processLoop (Suc fuel) rc prover now vKeyHash promises allProofs (bp, w) =
     (let (outcomes, bp1) = settleAll prover now promises bp in
      case promiseAll outcomes of
        Inl e \<Rightarrow> (Some (Inl e), bp1, w)
      | Inr batchProofs \<Rightarrow>
          (let allProofs1 = allProofs @ batchProofs;
               n = nat (aggregationSize (config bp1));
               (posted, allProofs2, w') =
                  (if int (length allProofs1) \<ge> aggregationSize (config bp1)
                   then (let (r, w1) = postAggregatedBatchesToL1 rc (now div 1000)
                                          (take n allProofs1) vKeyHash w
                         in (r, drop n allProofs1, w1))
                   else (Inr True, allProofs1, w))
           in case posted of
                Inl e \<Rightarrow> (Some (Inl e), bp1, w')
              | Inr _ \<Rightarrow>
                  if length (pendingTransactions bp1) > 0
                  then (let (promises', bp2) = launchBatches (nat (batchCount bp1)) bp1
                        in processLoop fuel rc prover now vKeyHash promises' allProofs2 (bp2, w'))
                  else (Some (Inr allProofs2), bp1, w')))"

text \<open>
  What \<^verbatim>\<open>processPendingTransactions\<close> does at the call, up to its first \<^verbatim>\<open>await\<close>: it
  returns at once, or it is left suspended on the promises of the first round with the
  \<^verbatim>\<open>processing\<close> flag set.
\<close>

datatype 'a entered = Returned 'a | Awaiting "(error + PendingBatch) list"

definition processPendingTransactions_begin ::
  "BatchProcessor \<Rightarrow> ProofResult list entered \<times> BatchProcessor" where
  "processPendingTransactions_begin bp =
     (if processing bp then (Returned [], bp)
      else
        (let bp1 = bp\<lparr>processing := True\<rparr> in
         if length (pendingTransactions bp1) > 0
         then (let (promises, bp2) = launchBatches (nat (batchCount bp1)) bp1
               in (Awaiting promises, bp2))
         else (Returned [], bp1\<lparr>processing := False\<rparr>)))"

text \<open>The whole call, when nothing else runs between its steps.\<close>

definition processPendingTransactions ::
  "nat \<Rightarrow> 'l RollupContract \<Rightarrow> prover \<Rightarrow> int \<Rightarrow> string list
     \<Rightarrow> BatchProcessor \<times> StateRootManager \<times> 'l
     \<Rightarrow> (error + ProofResult list) option \<times> BatchProcessor \<times> StateRootManager \<times> 'l" where
  "processPendingTransactions fuel rc prover now vKeyHash = (\<lambda>(bp, w).
     case processPendingTransactions_begin bp of
       (Returned r, bp') \<Rightarrow> (Some (Inr r), bp', w)
     | (Awaiting promises, bp1) \<Rightarrow>
         (case processLoop fuel rc prover now vKeyHash promises [] (bp1, w) of
            (None, st) \<Rightarrow> (None, st)
          | (Some (Inl e), bp2, w2) \<Rightarrow> (Some (Inl e), bp2\<lparr>processing := False\<rparr>, w2)
          | (Some (Inr allProofs), bp2, w2) \<Rightarrow>
              if length allProofs > 0
              then (case postAggregatedBatchesToL1 rc (now div 1000) allProofs vKeyHash w2 of
                      (Inl e, w3) \<Rightarrow> (Some (Inl e), bp2\<lparr>processing := False\<rparr>, w3)
                    | (Inr _, w3) \<Rightarrow> (Some (Inr allProofs), bp2\<lparr>processing := False\<rparr>, w3))
              else (Some (Inr allProofs), bp2\<lparr>processing := False\<rparr>, w2)))"


section \<open>RollupSequencer\<close>

record RollupSequencer =
  isRunning :: bool
  lastBatchTimestamp :: int
  totalBatches :: int

definition new_RollupSequencer :: RollupSequencer where
  "new_RollupSequencer = \<lparr>isRunning = False, lastBatchTimestamp = 0, totalBatches = 0\<rparr>"

text \<open>
  The timer tick, \<^verbatim>\<open>processBatch\<close>, and the manual \<^verbatim>\<open>forceBatch\<close>: first what each does at
  the call, up to its first \<^verbatim>\<open>await\<close>, then the whole call when nothing interleaves. A
  \<open>forceBatch\<close> that gets past its check is suspended inside \<^verbatim>\<open>createBatch\<close>, on the
  Prover.
\<close>

definition processBatch_begin :: "BatchProcessor \<Rightarrow> ProofResult list entered \<times> BatchProcessor" where
  "processBatch_begin bp =
     (if getPendingTransactionCount bp = 0 then (Returned [], bp)
      else if isProcessing bp then (Returned [], bp)
      else processPendingTransactions_begin bp)"

definition forceBatch_begin :: "BatchProcessor \<Rightarrow> (error + PendingBatch) \<times> BatchProcessor" where
  "forceBatch_begin bp =
     (if getPendingTransactionCount bp = 0
      then (Inl (Error ''No pending transactions to batch''), bp)
      else (case createBatch_begin bp of
              Inl e \<Rightarrow> (Inl e, bp)
            | Inr (pb, bp') \<Rightarrow> (Inr pb, bp')))"

definition processBatch ::
  "nat \<Rightarrow> 'l RollupContract \<Rightarrow> prover \<Rightarrow> int \<Rightarrow> string list
     \<Rightarrow> RollupSequencer \<times> BatchProcessor \<times> StateRootManager \<times> 'l
     \<Rightarrow> ProofResult list option \<times> RollupSequencer \<times> BatchProcessor \<times> StateRootManager \<times> 'l" where
  "processBatch fuel rc prover now vKeyHash = (\<lambda>(sq, bp, w).
     if getPendingTransactionCount bp = 0 then (Some [], sq, bp, w)
     else if isProcessing bp then (Some [], sq, bp, w)
     else (case processPendingTransactions fuel rc prover now vKeyHash (bp, w) of
             (None, st) \<Rightarrow> (None, sq, st)
           | (Some (Inl e), st) \<Rightarrow> (Some [], sq, st)
           | (Some (Inr proofs), st) \<Rightarrow>
               (Some proofs,
                (if length proofs > 0
                 then sq\<lparr>lastBatchTimestamp := now div 1000,
                         totalBatches := totalBatches sq + int (length proofs)\<rparr>
                 else sq), st)))"

definition forceBatch ::
  "'l RollupContract \<Rightarrow> prover \<Rightarrow> int \<Rightarrow> string list
     \<Rightarrow> RollupSequencer \<times> BatchProcessor \<times> StateRootManager \<times> 'l
     \<Rightarrow> (error + ProofResult) \<times> RollupSequencer \<times> BatchProcessor \<times> StateRootManager \<times> 'l" where
  "forceBatch rc prover now vKeyHash = (\<lambda>(sq, bp, w).
     if getPendingTransactionCount bp = 0
     then (Inl (Error ''No pending transactions to batch''), sq, bp, w)
     else (case createAndPostBatch rc prover now vKeyHash (bp, w) of
             (Inl e, st) \<Rightarrow> (Inl e, sq, st)
           | (Inr proof, st) \<Rightarrow>
               (Inr proof,
                sq\<lparr>lastBatchTimestamp := now div 1000, totalBatches := totalBatches sq + 1\<rparr>,
                st)))"


section \<open>ProofGenerator\<close>

text \<open>
  \<^verbatim>\<open>pendingProofs\<close> maps a batch index to the promise of the Prover call in flight for it;
  the promise is identified by the request it was created for.
\<close>

record ProofGenerator =
  pendingProofs :: "int \<rightharpoonup> Transaction list \<times> int"
  proofCache :: "string \<rightharpoonup> ProofResult"

definition new_ProofGenerator :: ProofGenerator where
  "new_ProofGenerator = \<lparr>pendingProofs = Map.empty, proofCache = Map.empty\<rparr>"

fun join :: "string \<Rightarrow> string list \<Rightarrow> string" where
  "join sep [] = []"
| "join sep [x] = x"
| "join sep (x # y # ys) = x @ sep @ join sep (y # ys)"

definition generateCacheKey :: "Transaction list \<Rightarrow> int \<Rightarrow> string" where
  "generateCacheKey transactions batchIdx =
     (let txHashes = join ''_'' (map (\<lambda>tx. tx_from tx @ ''_'' @ tx_to tx @ ''_'' @ tx_value tx
                                          @ ''_'' @ string_of_int (nonce tx)) transactions)
      in string_of_int batchIdx @ ''_'' @ txHashes)"

definition doGenerateProof :: "prover \<Rightarrow> Transaction list \<Rightarrow> int \<Rightarrow> error + ProofResult" where
  "doGenerateProof prover transactions batchIdx = prover transactions batchIdx"

text \<open>
  \<^verbatim>\<open>generateProof\<close> up to its \<^verbatim>\<open>await\<close>: a cached proof is returned, or the promise in
  flight for the batch index is returned, or the Prover is invoked and its promise
  registered.
\<close>

datatype lookup =
    Cached ProofResult
  | Joined "Transaction list \<times> int"
  | Invoked "Transaction list \<times> int"

definition generateProof_begin ::
  "Transaction list \<Rightarrow> int \<Rightarrow> ProofGenerator \<Rightarrow> lookup \<times> ProofGenerator" where
  "generateProof_begin transactions batchIdx g =
     (let cacheKey = generateCacheKey transactions batchIdx in
      case proofCache g cacheKey of
        Some proof \<Rightarrow> (Cached proof, g)
      | None \<Rightarrow>
          (case pendingProofs g batchIdx of
             Some promise \<Rightarrow> (Joined promise, g)
           | None \<Rightarrow>
               (Invoked (transactions, batchIdx),
                g\<lparr>pendingProofs := (pendingProofs g)(batchIdx \<mapsto> (transactions, batchIdx))\<rparr>)))"

text \<open>The \<^verbatim>\<open>try\<close>/\<^verbatim>\<open>finally\<close> after the \<^verbatim>\<open>await\<close>, on the generator as it is then.\<close>

definition generateProof_resume ::
  "Transaction list \<Rightarrow> int \<Rightarrow> error + ProofResult \<Rightarrow> ProofGenerator
     \<Rightarrow> (error + ProofResult) \<times> ProofGenerator" where
  "generateProof_resume transactions batchIdx outcome g =
     (case outcome of
        Inr proof \<Rightarrow>
          (Inr proof,
           g\<lparr>proofCache := (proofCache g)(generateCacheKey transactions batchIdx \<mapsto> proof),
             pendingProofs := (pendingProofs g)(batchIdx := None)\<rparr>)
      | Inl e \<Rightarrow> (Inl e, g\<lparr>pendingProofs := (pendingProofs g)(batchIdx := None)\<rparr>))"

definition generateProof ::
  "prover \<Rightarrow> Transaction list \<Rightarrow> int \<Rightarrow> ProofGenerator \<Rightarrow> (error + ProofResult) \<times> ProofGenerator" where
  "generateProof prover transactions batchIdx g =
     (case generateProof_begin transactions batchIdx g of
        (Cached proof, g') \<Rightarrow> (Inr proof, g')
      | (Joined (txs, idx), g') \<Rightarrow> (doGenerateProof prover txs idx, g')
      | (Invoked (txs, idx), g') \<Rightarrow>
          generateProof_resume transactions batchIdx (doGenerateProof prover txs idx) g')"


section \<open>Concrete values used in the examples\<close>

definition mkProof :: "string \<Rightarrow> int \<Rightarrow> string \<Rightarrow> string \<Rightarrow> ProofResult" where
  "mkProof pid idx old new =
     \<lparr>proofId = pid, pr_batchIndex = idx, proofData = pid,
      publicValues = \<lparr>oldStateRoot = old, newStateRoot = new, pv_batchIndex = idx,
                      transactionCount = 1, pv_transactionHashes = []\<rparr>,
      proofSize = 1024, generationTime = 0, pr_timestamp = 0\<rparr>"


text \<open>
  A platform for the examples: addresses are 42 characters starting with \<^verbatim>\<open>0x\<close>, the digest
  is the encoded string itself, and \<^verbatim>\<open>BigInt\<close> reads an optional minus sign and decimal digits.
\<close>

fun parseDigits :: "string \<Rightarrow> int \<Rightarrow> int option" where
  "parseDigits [] acc = Some acc"
| "parseDigits (c # cs) acc =
     (if c \<in> set ''0123456789''
      then parseDigits cs (10 * acc + (int (of_char c) - 48))
      else None)"

definition parseBigInt :: "string \<Rightarrow> int option" where
  "parseBigInt s =
     (case s of
        [] \<Rightarrow> Some 0
      | c # cs \<Rightarrow> if c = CHR ''-'' \<and> cs \<noteq> [] then map_option uminus (parseDigits cs 0)
                  else parseDigits s 0)"

definition examplePlatform :: platform where
  "examplePlatform =
     \<lparr>isAddress = (\<lambda>s. length s = 42 \<and> startsWith s ''0x''),
      keccak256 = (\<lambda>s. s),
      BigInt = parseBigInt\<rparr>"

definition alice :: string where
  "alice = ''0x1234567890123456789012345678901234567890''"

definition bob :: string where
  "bob = ''0x0987654321098765432109876543210987654321''"

definition mkTx :: "string \<Rightarrow> int \<Rightarrow> int \<Rightarrow> int \<Rightarrow> Transaction" where
  "mkTx v n gl gp =
     \<lparr>tx_from = alice, tx_to = bob, tx_value = v, tx_data = ''0x'', nonce = n,
      gasLimit = gl, gasPrice = gp\<rparr>"

text \<open>
  The repository's Prover, \<^verbatim>\<open>generateProofForBatch\<close> of \<^verbatim>\<open>prover/src/prover.ts\<close>, which
  never rejects: the public values are the mock verifier's constants, the batch index is
  the one requested; \<open>pid\<close> stands for the random proof identifier.
\<close>

definition mockProofResult :: "string \<Rightarrow> int \<Rightarrow> int \<Rightarrow> ProofResult" where
  "mockProofResult pid now batchIdx =
     \<lparr>proofId = pid, pr_batchIndex = batchIdx,
      proofData = replicate 2048 CHR ''0'',
      publicValues = \<lparr>oldStateRoot = ''0x'' @ replicate 64 CHR ''0'',
                      newStateRoot = ''0x'' @ replicate 64 CHR ''1'',
                      pv_batchIndex = 0, transactionCount = 1, pv_transactionHashes = []\<rparr>,
      proofSize = 1024, generationTime = 0, pr_timestamp = now\<rparr>"

definition generateProofForBatch :: "string \<Rightarrow> int \<Rightarrow> prover" where
  "generateProofForBatch pid now transactions batchIdx = Inr (mockProofResult pid now batchIdx)"

text \<open>
  A Prover whose public values list the digests of the transactions it was given, and a
  Prover that rejects every request.
\<close>

definition digestProver :: prover where
  "digestProver transactions batchIdx =
     Inr \<lparr>proofId = ''proof'', pr_batchIndex = batchIdx, proofData = ''00'',
          publicValues = \<lparr>oldStateRoot = ''r0'', newStateRoot = ''r1'', pv_batchIndex = batchIdx,
                          transactionCount = int (length transactions),
                          pv_transactionHashes =
                            map (generateTransactionHash examplePlatform) transactions\<rparr>,
          proofSize = 1, generationTime = 0, pr_timestamp = 0\<rparr>"

definition failingProver :: prover where
  "failingProver transactions batchIdx = Inl (Error ''proof generation failed'')"

text \<open>A ledger double that accepts every submission and always reports the same root.\<close>

definition acceptingLedger :: "string \<Rightarrow> unit RollupContract" where
  "acceptingLedger r =
     \<lparr>getCurrentStateRoot = (\<lambda>_. Inr r),
      getCurrentBatchIndex = (\<lambda>_. Inr 0),
      getBatch = (\<lambda>i _. Inl (SettlementError ''no such batch'')),
      submitBatch = (\<lambda>_ _ _ l. Inr l),
      submitAggregatedBatch = (\<lambda>_ _ _ l. Inr l)\<rparr>"


text \<open>
  Transactions and processor states of the examples. \<open>cfg1\<close> batches one transaction at a
  time. \<open>pool3\<close>, \<open>pool4\<close> and \<open>poolD\<close> are processors after intake; \<open>pool1\<close> holds one
  transaction and \<open>drained1\<close> is \<open>pool1\<close> after one \<open>createBatch\<close>. \<open>stalePool\<close> is a
  processor whose gas ceiling was lowered by \<open>updateConfig\<close> after \<open>bigTx\<close> was queued.
\<close>

definition cfg1 :: BatchConfig where
  "cfg1 = defaultConfig\<lparr>maxTransactions := 1\<rparr>"

definition t1 :: Transaction where
  "t1 = mkTx ''1'' 0 21000 1"

definition t2 :: Transaction where
  "t2 = mkTx ''2'' 1 21000 3"

definition t3 :: Transaction where
  "t3 = mkTx ''3'' 2 21000 2"

definition t4 :: Transaction where
  "t4 = mkTx ''4'' 3 21000 2"

definition bigTx :: Transaction where
  "bigTx = mkTx ''1'' 0 5000000 1"

definition pool3 :: BatchProcessor where
  "pool3 = addTransactions examplePlatform [t1, t2, t3] (new_BatchProcessor cfg1)"

definition pool4 :: BatchProcessor where
  "pool4 = snd (addTransaction examplePlatform t4 pool3)"


definition pool1 :: BatchProcessor where
  "pool1 = snd (addTransaction examplePlatform t1 (new_BatchProcessor defaultConfig))"

definition drained1 :: BatchProcessor where
  "drained1 = snd (createBatch (generateProofForBatch ''pid'' 8) 9 pool1)"

definition stalePool :: BatchProcessor where
  "stalePool =
     updateConfig \<lparr>new_maxTransactions = None, new_maxGasLimit = Some 1000000,
                   new_aggregationSize = None, new_batchInterval = None\<rparr>
       (snd (addTransaction examplePlatform bigTx (new_BatchProcessor defaultConfig)))"




text \<open>
  The promises of the first round of \<open>processPendingTransactions\<close> on \<open>pool3\<close>, and the
  processor as that round leaves it.
\<close>

definition round3 :: "(error + PendingBatch) list" where
  "round3 = (case fst (processPendingTransactions_begin pool3) of
               Awaiting promises \<Rightarrow> promises | Returned _ \<Rightarrow> [])"

definition launched3 :: BatchProcessor where
  "launched3 = snd (processPendingTransactions_begin pool3)"

text \<open>The processor while the cycle a timer tick started on \<open>pool4\<close> is in flight.\<close>

definition ticking4 :: BatchProcessor where
  "ticking4 = snd (processBatch_begin pool4)"

text \<open>
  Two transaction sets that differ in the gas price only, and a generator that has
  completed a proof for the first.
\<close>

definition cheap :: "Transaction list" where
  "cheap = [mkTx ''1'' 0 21000 1]"

definition dear :: "Transaction list" where
  "dear = [mkTx ''1'' 0 21000 2]"

definition warm :: ProofGenerator where
  "warm = snd (generateProof digestProver cheap 5 new_ProofGenerator)"

text \<open>Two transitions whose roots do not chain: the second starts from \<open>rX\<close>, not \<open>r1\<close>.\<close>

definition brokenChain :: "ProofResult list" where
  "brokenChain = [mkProof ''p0'' 0 ''r0'' ''r1'', mkProof ''p1'' 1 ''rX'' ''r2'']"


section \<open>Single submission\<close>

text \<open>
  C4. A single submission whose declared old root differs from the current root fetched
  from the ledger fails with \<open>InvalidTransition\<close>; the manager and the ledger are returned
  as they were, whatever the ledger's submission operation is, so nothing was submitted
  and no history entry was written. When the declared old root equals the current root
  the call goes on to the ledger's \<^verbatim>\<open>submitBatch\<close> and its outcome decides the result.
\<close>

theorem submitStateUpdate_old_root_guard:
  assumes "getCurrentStateRoot rc l = Inr currentRoot"
  shows "(oldStateRoot (publicValues p) \<noteq> currentRoot \<longrightarrow>
            submitStateUpdate rc now p vKeyHash (m, l) = (Inl InvalidTransition, m, l))
       \<and> (oldStateRoot (publicValues p) = currentRoot \<longrightarrow>
            submitStateUpdate rc now p vKeyHash (m, l) =
              (case submitBatch rc (proofData p) (publicValues p) vKeyHash l of
                 Inl e \<Rightarrow> (Inl e, m, l)
               | Inr l' \<Rightarrow> (Inr True, recordProof now p m, l')))"
  using assms
  by (simp add: submitStateUpdate_def verifyStateTransition_def InvalidTransition_def Let_def)

theorem submitStateUpdate_old_root_guard_witness:
  "getCurrentStateRoot (zkevm 7) (deployed ''r0'') = Inr ''r0''
   \<and> oldStateRoot (publicValues (mkProof ''p'' 0 ''rX'' ''r1'')) \<noteq> ''r0''
   \<and> submitStateUpdate (zkevm 7) 9 (mkProof ''p'' 0 ''rX'' ''r1'') [] (new_StateRootManager, deployed ''r0'')
       = (Inl InvalidTransition, new_StateRootManager, deployed ''r0'')
   \<and> oldStateRoot (publicValues (mkProof ''p'' 0 ''r0'' ''r1'')) = ''r0''
   \<and> fst (submitStateUpdate (zkevm 7) 9 (mkProof ''p'' 0 ''r0'' ''r1'') []
            (new_StateRootManager, deployed ''r0'')) = Inr True"
proof -
  have h: "getCurrentStateRoot (zkevm 7) (deployed ''r0'') = Inr ''r0''"
    by (simp add: zkevm_def deployed_def)
  have a: "oldStateRoot (publicValues (mkProof ''p'' 0 ''rX'' ''r1'')) \<noteq> ''r0''"
    by (simp add: mkProof_def)
  have b: "oldStateRoot (publicValues (mkProof ''p'' 0 ''r0'' ''r1'')) = ''r0''"
    by (simp add: mkProof_def)
  have s: "submitBatch (zkevm 7) (proofData (mkProof ''p'' 0 ''r0'' ''r1''))
             (publicValues (mkProof ''p'' 0 ''r0'' ''r1'')) [] (deployed ''r0'')
           = Inr ((deployed ''r0'')\<lparr>processedProofs := {''p''},
                 batches := [0 \<mapsto> \<lparr>b_batchIndex = 0, stateRoot = ''r1'',
                     b_transactionHashes = [], b_timestamp = 7, finalized = True\<rparr>],
                 currentStateRoot := ''r1'', currentBatchIndex := 1\<rparr>)"
    by (simp add: zkevm_def deployed_def sol_submitBatch_def mkProof_def)
  from submitStateUpdate_old_root_guard [OF h, of "mkProof ''p'' 0 ''rX'' ''r1''" 9 "[]" new_StateRootManager]
       submitStateUpdate_old_root_guard [OF h, of "mkProof ''p'' 0 ''r0'' ''r1''" 9 "[]" new_StateRootManager]
  show ?thesis using h a b by (simp add: s)
qed

text \<open>
  C8. After a single submission that returned \<^verbatim>\<open>true\<close>, the root history read through
  \<^verbatim>\<open>getStateHistory\<close> holds, at the proof's batch index, exactly the string the proof
  declares as its new state root.
\<close>

theorem submitStateUpdate_records_new_root:
  assumes "submitStateUpdate rc now p vKeyHash (m, l) = (Inr True, m', l')"
  shows "getStateHistory m' (pr_batchIndex p) = Some (newStateRoot (publicValues p))"
  using assms
  by (auto simp: submitStateUpdate_def getStateHistory_def recordProof_def
           split: sum.splits if_splits)

theorem submitStateUpdate_records_new_root_witness:
  "submitStateUpdate (zkevm 7) 9 (mkProof ''p'' 0 ''r0'' ''r1'') []
       (new_StateRootManager, deployed ''r0'')
     = (Inr True, recordProof 9 (mkProof ''p'' 0 ''r0'' ''r1'') new_StateRootManager,
        (deployed ''r0'')\<lparr>processedProofs := {''p''},
           batches := [0 \<mapsto> \<lparr>b_batchIndex = 0, stateRoot = ''r1'',
               b_transactionHashes = [], b_timestamp = 7, finalized = True\<rparr>],
           currentStateRoot := ''r1'', currentBatchIndex := 1\<rparr>)
   \<and> getStateHistory (recordProof 9 (mkProof ''p'' 0 ''r0'' ''r1'') new_StateRootManager) 0
       = Some ''r1''"
proof -
  have run: "submitStateUpdate (zkevm 7) 9 (mkProof ''p'' 0 ''r0'' ''r1'') []
       (new_StateRootManager, deployed ''r0'')
     = (Inr True, recordProof 9 (mkProof ''p'' 0 ''r0'' ''r1'') new_StateRootManager,
        (deployed ''r0'')\<lparr>processedProofs := {''p''},
           batches := [0 \<mapsto> \<lparr>b_batchIndex = 0, stateRoot = ''r1'',
               b_transactionHashes = [], b_timestamp = 7, finalized = True\<rparr>],
           currentStateRoot := ''r1'', currentBatchIndex := 1\<rparr>)"
    by (simp add: submitStateUpdate_def verifyStateTransition_def zkevm_def deployed_def
          sol_submitBatch_def mkProof_def)
  from submitStateUpdate_records_new_root [OF run] show ?thesis
    using run by (simp add: mkProof_def)
qed


section \<open>Rounding to double precision\<close>

lemma excess_small: "n < 2 ^ 53 \<Longrightarrow> excess n = 0"
  by (simp add: excess.simps)

lemma round53_small: "n < 2 ^ 53 \<Longrightarrow> round53 n = n"
  by (simp add: round53_def excess_small)

text \<open>Integers below \<open>2^53\<close> in magnitude are doubles: rounding leaves them as they are.\<close>

lemma double_of_small: "\<bar>x\<bar> < 2 ^ 53 \<Longrightarrow> double_of x = x"
proof -
  assume a: "\<bar>x\<bar> < 2 ^ 53"
  then have n: "nat \<bar>x\<bar> < 2 ^ 53" by (simp add: nat_less_iff)
  have "int (round53 (nat \<bar>x\<bar>)) = \<bar>x\<bar>" using round53_small [OF n] by simp
  moreover have "\<bar>x\<bar> < (2::int) ^ 1024"
  proof -
    have "(2::int) ^ 53 \<le> 2 ^ 1024" by (rule power_increasing) simp_all
    with a show ?thesis by linarith
  qed
  ultimately show ?thesis by (simp add: double_of_def Let_def mult_sgn_abs)
qed






section \<open>Facts about the examples\<close>

lemma valid_mkTx:
  "21000 \<le> gl \<Longrightarrow> gl \<le> maxGasLimit cfg \<Longrightarrow> 0 \<le> n \<Longrightarrow> 0 \<le> gp
   \<Longrightarrow> parseBigInt v = Some k \<Longrightarrow> 0 \<le> k
   \<Longrightarrow> validateTransaction examplePlatform cfg (mkTx v n gl gp) = None"
  by (simp add: validateTransaction_def examplePlatform_def mkTx_def alice_def bob_def
        startsWith_def)

lemma digest_value:
  "generateTransactionHash examplePlatform (mkTx [c] n gl gp)
     = generateTransactionHash examplePlatform (mkTx [c'] n' gl' gp')
   \<Longrightarrow> c \<noteq> CHR 0x22 \<Longrightarrow> c \<noteq> CHR 0x5C \<Longrightarrow> c' \<noteq> CHR 0x22 \<Longrightarrow> c' \<noteq> CHR 0x5C \<Longrightarrow> c = c'"
  by (simp add: generateTransactionHash_def examplePlatform_def JSON_stringify_def mkTx_def
        json_key_def json_string_def alice_def bob_def)

lemma valid_cfg1:
  "validateTransaction examplePlatform cfg1 t1 = None"
  "validateTransaction examplePlatform cfg1 t2 = None"
  "validateTransaction examplePlatform cfg1 t3 = None"
  "validateTransaction examplePlatform cfg1 t4 = None"
  by (simp_all add: t1_def t2_def t3_def t4_def valid_mkTx [where k = 1]
        valid_mkTx [where k = 2] valid_mkTx [where k = 3] valid_mkTx [where k = 4]
        cfg1_def defaultConfig_def parseBigInt_def)

lemma valid_default:
  "validateTransaction examplePlatform defaultConfig t1 = None"
  "validateTransaction examplePlatform defaultConfig t2 = None"
  "validateTransaction examplePlatform defaultConfig t3 = None"
  "validateTransaction examplePlatform defaultConfig t4 = None"
  "validateTransaction examplePlatform defaultConfig bigTx = None"
  by (simp_all add: t1_def t2_def t3_def t4_def bigTx_def valid_mkTx [where k = 1]
        valid_mkTx [where k = 2] valid_mkTx [where k = 3] valid_mkTx [where k = 4]
        defaultConfig_def parseBigInt_def)

lemma distinct_digests:
  "generateTransactionHash examplePlatform t1 \<noteq> generateTransactionHash examplePlatform t2"
  "generateTransactionHash examplePlatform t1 \<noteq> generateTransactionHash examplePlatform t3"
  "generateTransactionHash examplePlatform t2 \<noteq> generateTransactionHash examplePlatform t3"
  "generateTransactionHash examplePlatform t4 \<noteq> generateTransactionHash examplePlatform t1"
  "generateTransactionHash examplePlatform t4 \<noteq> generateTransactionHash examplePlatform t2"
  "generateTransactionHash examplePlatform t4 \<noteq> generateTransactionHash examplePlatform t3"
  by (auto simp: t1_def t2_def t3_def t4_def dest!: digest_value)

lemma pool3_eq:
  "pool3 = (new_BatchProcessor cfg1)\<lparr>pendingTransactions := [t1, t2, t3],
      transactionHashes := {generateTransactionHash examplePlatform t3,
                            generateTransactionHash examplePlatform t2,
                            generateTransactionHash examplePlatform t1}\<rparr>"
  using distinct_digests
  by (simp add: pool3_def addTransactions_def valid_cfg1 new_BatchProcessor_def Let_def)

lemma pool4_eq:
  "pool4 = (new_BatchProcessor cfg1)\<lparr>pendingTransactions := [t1, t2, t3, t4],
      transactionHashes := {generateTransactionHash examplePlatform t4,
                            generateTransactionHash examplePlatform t3,
                            generateTransactionHash examplePlatform t2,
                            generateTransactionHash examplePlatform t1}\<rparr>"
  using distinct_digests
  by (simp add: pool4_def pool3_eq addTransaction_def valid_cfg1 new_BatchProcessor_def Let_def)


lemma pool1_eq:
  "pool1 = (new_BatchProcessor defaultConfig)\<lparr>pendingTransactions := [t1],
      transactionHashes := {generateTransactionHash examplePlatform t1}\<rparr>"
  by (simp add: pool1_def addTransaction_def valid_default new_BatchProcessor_def Let_def)

lemma batchSize_one:
  "maxTransactions (config bp) = 1 \<Longrightarrow> pendingTransactions bp \<noteq> []
   \<Longrightarrow> calculateOptimalBatchSize bp = 1"
  by (cases "pendingTransactions bp")
     (simp_all add: calculateOptimalBatchSize_def estimateCurrentGasPrice_def Let_def)

lemma createBatch_begin_one:
  "maxTransactions (config bp) = 1 \<Longrightarrow> pendingTransactions bp = t # ts \<Longrightarrow>
   createBatch_begin bp =
     Inr (\<lparr>req_transactions = [t], req_batchIndex = batchIndex bp,
           pb_gasUsage = double_of (gasLimit t)\<rparr>,
          bp\<lparr>pendingTransactions := ts\<rparr>)"
  by (simp add: createBatch_begin_def batchSize_one Let_def optimizeBatch_def
        calculateGasUsage_def number_add_def)

lemma batchCount_one:
  "maxTransactions (config bp) = 1
   \<Longrightarrow> batchCount bp = min 3 (int (length (pendingTransactions bp)))"
  by (simp add: batchCount_def Let_def)

lemma mockProofResult_index: "pr_batchIndex (mockProofResult pid now i) = i"
  by (simp add: mockProofResult_def)

lemma begin_pool3:
  "processPendingTransactions_begin pool3 =
   (Awaiting [Inr \<lparr>req_transactions = [t1], req_batchIndex = 0, pb_gasUsage = 21000\<rparr>,
              Inr \<lparr>req_transactions = [t2], req_batchIndex = 0, pb_gasUsage = 21000\<rparr>,
              Inr \<lparr>req_transactions = [t3], req_batchIndex = 0, pb_gasUsage = 21000\<rparr>],
    pool3\<lparr>processing := True, pendingTransactions := []\<rparr>)"
  apply (simp add: processPendingTransactions_begin_def pool3_eq new_BatchProcessor_def
           batchCount_one cfg1_def defaultConfig_def Let_def)
  apply (simp add: eval_nat_numeral createBatch_begin_one cfg1_def defaultConfig_def)
  apply (simp add: t1_def t2_def t3_def mkTx_def double_of_small)
  done

lemma settle_round3:
  "settleAll (generateProofForBatch ''pid'' 8) 9 round3 launched3
   = ([Inr (mockProofResult ''pid'' 8 0), Inr (mockProofResult ''pid'' 8 0),
       Inr (mockProofResult ''pid'' 8 0)],
      pool3\<lparr>processing := True, pendingTransactions := [],
        batchStats := [0 \<mapsto> \<lparr>st_transactionCount = 1, st_gasUsed = 21000, st_timestamp = 9\<rparr>,
                       1 \<mapsto> \<lparr>st_transactionCount = 1, st_gasUsed = 21000, st_timestamp = 9\<rparr>,
                       2 \<mapsto> \<lparr>st_transactionCount = 1, st_gasUsed = 21000, st_timestamp = 9\<rparr>],
        batchIndex := 3\<rparr>)"
  apply (simp only: round3_def launched3_def begin_pool3 fst_conv snd_conv entered.case)
  apply (simp add: createBatch_resume_def generateProofForBatch_def pool3_eq
           new_BatchProcessor_def)
  done

lemma begin_pool4:
  "processBatch_begin pool4 =
   (Awaiting [Inr \<lparr>req_transactions = [t1], req_batchIndex = 0, pb_gasUsage = 21000\<rparr>,
              Inr \<lparr>req_transactions = [t2], req_batchIndex = 0, pb_gasUsage = 21000\<rparr>,
              Inr \<lparr>req_transactions = [t3], req_batchIndex = 0, pb_gasUsage = 21000\<rparr>],
    pool4\<lparr>processing := True, pendingTransactions := [t4]\<rparr>)"
  apply (simp add: processBatch_begin_def getPendingTransactionCount_def isProcessing_def
           processPendingTransactions_begin_def pool4_eq new_BatchProcessor_def batchCount_one
           cfg1_def defaultConfig_def Let_def)
  apply (simp add: eval_nat_numeral createBatch_begin_one cfg1_def defaultConfig_def)
  apply (simp add: t1_def t2_def t3_def mkTx_def double_of_small)
  done

lemma createBatch_pool1:
  "createBatch (generateProofForBatch ''pid'' 8) 9 pool1 =
     (Inr (mockProofResult ''pid'' 8 0),
      (new_BatchProcessor defaultConfig)\<lparr>
         transactionHashes := {generateTransactionHash examplePlatform t1},
         batchStats := [0 \<mapsto> \<lparr>st_transactionCount = 1, st_gasUsed = 21000, st_timestamp = 9\<rparr>],
         batchIndex := 1\<rparr>)"
  apply (simp add: createBatch_def createBatch_begin_def pool1_eq new_BatchProcessor_def
           calculateOptimalBatchSize_def estimateCurrentGasPrice_def defaultConfig_def Let_def
           optimizeBatch_def calculateGasUsage_def number_add_def createBatch_resume_def
           generateProofForBatch_def)
  apply (simp add: t1_def mkTx_def double_of_small)
  done

lemma warm_eq:
  "warm = \<lparr>pendingProofs = Map.empty,
           proofCache = [generateCacheKey cheap 5 \<mapsto> projr (digestProver cheap 5)]\<rparr>"
  by (simp add: warm_def generateProof_def generateProof_begin_def generateProof_resume_def
        new_ProofGenerator_def doGenerateProof_def digestProver_def Let_def)


lemma createBatch_begin_empty:
  "pendingTransactions bp = [] \<Longrightarrow> createBatch_begin bp = Inl EmptyPool"
  by (simp add: createBatch_begin_def EmptyPool_def)

text \<open>
  The whole call on \<open>pool3\<close>: the three proofs come back, and posting them fails in
  \<open>postAggregatedBatchesToL1\<close> before any ledger is asked.
\<close>

lemma processPendingTransactions_pool3:
  "processPendingTransactions 2 (acceptingLedger ''r0'') (generateProofForBatch ''pid'' 8) 9 []
     (pool3, new_StateRootManager, ())
   = (Some (Inl (TypeError ''mul is not a function'')),
      pool3\<lparr>processing := False, pendingTransactions := [],
        batchStats := [0 \<mapsto> \<lparr>st_transactionCount = 1, st_gasUsed = 21000, st_timestamp = 9\<rparr>,
                       1 \<mapsto> \<lparr>st_transactionCount = 1, st_gasUsed = 21000, st_timestamp = 9\<rparr>,
                       2 \<mapsto> \<lparr>st_transactionCount = 1, st_gasUsed = 21000, st_timestamp = 9\<rparr>],
        batchIndex := 3\<rparr>,
      new_StateRootManager, ())"
proof -
  have s: "settleAll (generateProofForBatch ''pid'' 8) 9
      [Inr \<lparr>req_transactions = [t1], req_batchIndex = 0, pb_gasUsage = 21000\<rparr>,
       Inr \<lparr>req_transactions = [t2], req_batchIndex = 0, pb_gasUsage = 21000\<rparr>,
       Inr \<lparr>req_transactions = [t3], req_batchIndex = 0, pb_gasUsage = 21000\<rparr>]
      (pool3\<lparr>processing := True, pendingTransactions := []\<rparr>) =
      ([Inr (mockProofResult ''pid'' 8 0), Inr (mockProofResult ''pid'' 8 0),
       Inr (mockProofResult ''pid'' 8 0)],
      pool3\<lparr>processing := True, pendingTransactions := [],
        batchStats := [0 \<mapsto> \<lparr>st_transactionCount = 1, st_gasUsed = 21000, st_timestamp = 9\<rparr>,
                       1 \<mapsto> \<lparr>st_transactionCount = 1, st_gasUsed = 21000, st_timestamp = 9\<rparr>,
                       2 \<mapsto> \<lparr>st_transactionCount = 1, st_gasUsed = 21000, st_timestamp = 9\<rparr>],
        batchIndex := 3\<rparr>)"
    using settle_round3 by (simp only: round3_def launched3_def begin_pool3 fst_conv snd_conv entered.case)
  have post: "postAggregatedBatchesToL1 (acceptingLedger ''r0'') 0
        [mockProofResult ''pid'' 8 0, mockProofResult ''pid'' 8 0, mockProofResult ''pid'' 8 0] []
        (new_StateRootManager, ())
      = (Inl (TypeError ''mul is not a function''), new_StateRootManager, ())"
    by (simp add: postAggregatedBatchesToL1_def bigint_mul_def)
  have cfg: "aggregationSize (config pool3) = 5" "pendingTransactions (pool3\<lparr>processing := True, pendingTransactions := []\<rparr>) = []"
    by (simp_all add: pool3_eq new_BatchProcessor_def cfg1_def defaultConfig_def)
  have loop: "processLoop (Suc (Suc 0)) (acceptingLedger ''r0'') (generateProofForBatch ''pid'' 8) 9 []
      [Inr \<lparr>req_transactions = [t1], req_batchIndex = 0, pb_gasUsage = 21000\<rparr>,
       Inr \<lparr>req_transactions = [t2], req_batchIndex = 0, pb_gasUsage = 21000\<rparr>,
       Inr \<lparr>req_transactions = [t3], req_batchIndex = 0, pb_gasUsage = 21000\<rparr>] []
      (pool3\<lparr>processing := True, pendingTransactions := []\<rparr>, new_StateRootManager, ())
     = (Some (Inr [mockProofResult ''pid'' 8 0, mockProofResult ''pid'' 8 0, mockProofResult ''pid'' 8 0]),
        pool3\<lparr>processing := True, pendingTransactions := [],
        batchStats := [0 \<mapsto> \<lparr>st_transactionCount = 1, st_gasUsed = 21000, st_timestamp = 9\<rparr>,
                       1 \<mapsto> \<lparr>st_transactionCount = 1, st_gasUsed = 21000, st_timestamp = 9\<rparr>,
                       2 \<mapsto> \<lparr>st_transactionCount = 1, st_gasUsed = 21000, st_timestamp = 9\<rparr>],
        batchIndex := 3\<rparr>, new_StateRootManager, ())"
    apply (subst processLoop.simps)
    apply (simp only: s prod.case)
    apply (simp add: cfg pool3_eq new_BatchProcessor_def cfg1_def defaultConfig_def del: processLoop.simps settleAll.simps)
    done
  have two: "(2::nat) = Suc (Suc 0)" by simp
  show ?thesis
    apply (simp only: processPendingTransactions_def begin_pool3 prod.case entered.case two loop)
    apply (simp add: post)
    done
qed


section \<open>Aggregate submission\<close>

text \<open>
  C1. \<open>submitAggregatedStateUpdates\<close> on \<open>brokenChain\<close>, whose second transition does not
  start from the first one's new root. The manager makes no check of its own: with the
  repository's contract as the ledger the call reaches the ledger and fails with the
  contract's \<open>InvalidStateRoot\<close>, which is not \<open>InvalidTransition\<close>; with a ledger that
  accepts the submission the call returns \<^verbatim>\<open>true\<close> and the history, empty before, holds
  both new roots.
\<close>

theorem submitAggregatedStateUpdates_broken_chain_unchecked:
  "oldStateRoot (publicValues (brokenChain ! 1)) \<noteq> newStateRoot (publicValues (brokenChain ! 0))
   \<and> submitAggregatedStateUpdates (zkevm 7) 9 brokenChain [] (new_StateRootManager, deployed ''r0'')
       = (Inl (SettlementError ''InvalidStateRoot''), new_StateRootManager, deployed ''r0'')
   \<and> SettlementError ''InvalidStateRoot'' \<noteq> InvalidTransition
   \<and> fst (submitAggregatedStateUpdates (acceptingLedger ''r0'') 9 brokenChain []
            (new_StateRootManager, ())) = Inr True
   \<and> getStateHistory new_StateRootManager 0 = None
   \<and> getStateHistory new_StateRootManager 1 = None
   \<and> getStateHistory (fst (snd (submitAggregatedStateUpdates (acceptingLedger ''r0'') 9 brokenChain []
         (new_StateRootManager, ())))) 0 = Some ''r1''
   \<and> getStateHistory (fst (snd (submitAggregatedStateUpdates (acceptingLedger ''r0'') 9 brokenChain []
         (new_StateRootManager, ())))) 1 = Some ''r2''"
  by (simp add: brokenChain_def submitAggregatedStateUpdates_def zkevm_def deployed_def mkProof_def
       sol_submitAggregatedBatch_def acceptingLedger_def recordProof_def new_StateRootManager_def
       getStateHistory_def InvalidTransition_def)


section \<open>Batch indices\<close>

text \<open>
  A \<open>createBatch\<close> that nothing interleaves with hands the Prover the current counter and,
  when the Prover succeeds, leaves the counter one higher.
\<close>

lemma createBatch_begin_index:
  "createBatch_begin bp = Inr (pb, bp') \<Longrightarrow>
     req_batchIndex pb = batchIndex bp \<and> batchIndex bp' = batchIndex bp"
  by (auto simp: createBatch_begin_def Let_def split: if_splits)

lemma createBatch_sequential_index:
  "createBatch prover now bp = (Inr proof, bp') \<Longrightarrow>
     batchIndex bp' = batchIndex bp + 1
     \<and> (\<exists>txs. prover txs (batchIndex bp) = Inr proof)"
  by (auto simp: createBatch_def createBatch_resume_def createBatch_begin_def Let_def
      split: if_splits sum.splits)

text \<open>
  The calls launched in one round of \<open>processPendingTransactions\<close> all read the counter
  before any of them has advanced it.
\<close>

lemma launchBatches_same_index:
  "launchBatches n bp = (ps, bp') \<Longrightarrow>
     batchIndex bp' = batchIndex bp \<and> (\<forall>pb. Inr pb \<in> set ps \<longrightarrow> req_batchIndex pb = batchIndex bp)"
proof (induction n arbitrary: bp ps bp')
  case 0
  then show ?case by simp
next
  case (Suc n)
  show ?case
  proof (cases "length (pendingTransactions bp) > 0")
    case False
    with Suc.prems show ?thesis by simp
  next
    case True
    show ?thesis
    proof (cases "createBatch_begin bp")
      case (Inl e)
      with True have False by (simp add: createBatch_begin_def Let_def)
      then show ?thesis ..
    next
      case (Inr r)
      obtain pb1 bp1 where r: "r = (pb1, bp1)" by (cases r)
      obtain ps1 bp2 where l: "launchBatches n bp1 = (ps1, bp2)" by (cases "launchBatches n bp1")
      from Inr r createBatch_begin_index
      have i: "req_batchIndex pb1 = batchIndex bp" "batchIndex bp1 = batchIndex bp" by auto
      from Suc.IH [OF l] i
      have "batchIndex bp2 = batchIndex bp"
           "\<forall>pb. Inr pb \<in> set ps1 \<longrightarrow> req_batchIndex pb = batchIndex bp" by auto
      moreover from Suc.prems True Inr r l have "ps = Inr pb1 # ps1" "bp' = bp2" by auto
      ultimately show ?thesis using i by auto
    qed
  qed
qed

text \<open>
  C2. The processor \<open>pool3\<close> starts at the index the ledger reports, 0, and queues three
  transactions with one transaction per batch. The first round of
  \<open>processPendingTransactions\<close> launches three \<open>createBatch\<close> calls; the three requests
  handed to the Prover all carry index 0, the three proofs that come back all carry
  index 0, and the counter ends at 3: the indices assigned are 0, 0, 0, not 0, 1, 2.
\<close>

theorem concurrent_createBatch_reuses_index:
  "initialize (zkevm 7) (deployed ''r0'') (new_BatchProcessor cfg1, new_StateRootManager)
     = Inr (new_BatchProcessor cfg1, new_StateRootManager)
   \<and> getBatchIndex pool3 = 0
   \<and> fst (processPendingTransactions_begin pool3) =
       Awaiting [Inr \<lparr>req_transactions = [t1], req_batchIndex = 0, pb_gasUsage = 21000\<rparr>,
                 Inr \<lparr>req_transactions = [t2], req_batchIndex = 0, pb_gasUsage = 21000\<rparr>,
                 Inr \<lparr>req_transactions = [t3], req_batchIndex = 0, pb_gasUsage = 21000\<rparr>]
   \<and> map (map_sum id pr_batchIndex)
         (fst (settleAll (generateProofForBatch ''pid'' 8) 9 round3 launched3))
       = [Inr 0, Inr 0, Inr 0]
   \<and> getBatchIndex (snd (settleAll (generateProofForBatch ''pid'' 8) 9 round3 launched3)) = 3"
  apply (simp only: settle_round3 fst_conv snd_conv)
  apply (simp add: begin_pool3 mockProofResult_index getBatchIndex_def)
  apply (simp add: initialize_def initializeStateRootManager_def zkevm_def deployed_def
           new_BatchProcessor_def pool3_eq)
  done


section \<open>Single flight\<close>

text \<open>
  C3. A timer tick on \<open>pool4\<close> starts a cycle: three \<open>createBatch\<close> calls are in flight, the
  \<open>processing\<close> flag is set and one transaction is still queued. A second tick in that
  state returns at once and changes nothing. A \<open>forceBatch\<close> in that state does not look
  at the flag: it drains the queued transaction and hands it to the Prover, a second
  cycle in flight beside the first. Conversely, a \<open>forceBatch\<close> on \<open>pool4\<close> leaves the flag
  unset, and a tick that fires while it is in flight starts a cycle of its own.
\<close>

theorem forceBatch_bypasses_single_flight:
  "fst (processBatch_begin pool4) =
     Awaiting [Inr \<lparr>req_transactions = [t1], req_batchIndex = 0, pb_gasUsage = 21000\<rparr>,
               Inr \<lparr>req_transactions = [t2], req_batchIndex = 0, pb_gasUsage = 21000\<rparr>,
               Inr \<lparr>req_transactions = [t3], req_batchIndex = 0, pb_gasUsage = 21000\<rparr>]
   \<and> isProcessing ticking4
   \<and> getPendingTransactionCount ticking4 = 1
   \<and> processBatch_begin ticking4 = (Returned [], ticking4)
   \<and> fst (forceBatch_begin ticking4)
       = Inr \<lparr>req_transactions = [t4], req_batchIndex = 0, pb_gasUsage = 21000\<rparr>
   \<and> getPendingTransactionCount (snd (forceBatch_begin ticking4)) = 0
   \<and> fst (forceBatch_begin pool4)
       = Inr \<lparr>req_transactions = [t1], req_batchIndex = 0, pb_gasUsage = 21000\<rparr>
   \<and> \<not> isProcessing (snd (forceBatch_begin pool4))
   \<and> fst (processBatch_begin (snd (forceBatch_begin pool4))) =
       Awaiting [Inr \<lparr>req_transactions = [t2], req_batchIndex = 0, pb_gasUsage = 21000\<rparr>,
                 Inr \<lparr>req_transactions = [t3], req_batchIndex = 0, pb_gasUsage = 21000\<rparr>,
                 Inr \<lparr>req_transactions = [t4], req_batchIndex = 0, pb_gasUsage = 21000\<rparr>]"
  apply (simp only: ticking4_def begin_pool4 fst_conv snd_conv)
  apply (simp add: processBatch_begin_def forceBatch_begin_def isProcessing_def
           getPendingTransactionCount_def processPendingTransactions_begin_def)
  apply (simp add: createBatch_begin_one pool4_eq new_BatchProcessor_def cfg1_def
           defaultConfig_def batchCount_one Let_def)
  apply (simp add: eval_nat_numeral createBatch_begin_one cfg1_def defaultConfig_def)
  apply (simp add: t1_def t2_def t3_def t4_def mkTx_def double_of_small)
  done

section \<open>The pending set\<close>

text \<open>
  C5. \<open>pool1\<close> holds the single transaction \<open>t1\<close>. \<open>createBatch\<close> drains it into batch 0
  and leaves the queue empty, but the digest of \<open>t1\<close> is still in \<open>transactionHashes\<close>:
  adding \<open>t1\<close> again returns without an error and without queueing it, so the pending
  count stays 0. After \<open>clearPendingTransactions\<close>, which empties the set together with
  the queue, the same transaction is accepted.
\<close>

theorem drained_digest_still_deduplicates:
  "pendingTransactions pool1 = [t1]
   \<and> fst (createBatch (generateProofForBatch ''pid'' 8) 9 pool1) = Inr (mockProofResult ''pid'' 8 0)
   \<and> pendingTransactions drained1 = []
   \<and> generateTransactionHash examplePlatform t1 \<in> transactionHashes drained1
   \<and> addTransaction examplePlatform t1 drained1 = (Inr (), drained1)
   \<and> getPendingTransactionCount (snd (addTransaction examplePlatform t1 drained1)) = 0
   \<and> getPendingTransactionCount
        (snd (addTransaction examplePlatform t1 (clearPendingTransactions pool1))) = 1"
  apply (simp add: drained1_def createBatch_pool1)
  apply (simp add: pool1_eq addTransaction_def new_BatchProcessor_def valid_default
           getPendingTransactionCount_def clearPendingTransactions_def)
  done


section \<open>Duplicates\<close>

text \<open>
  C7, as stated, fails on \<open>stalePool\<close>: the digest of \<open>bigTx\<close> is in the pending set, and
  adding \<open>bigTx\<close> again raises, because validation runs before the duplicate check and
  the gas ceiling is now below the transaction's gas limit.
\<close>

theorem addTransaction_duplicate_invalid_raises:
  "generateTransactionHash examplePlatform bigTx \<in> transactionHashes stalePool
   \<and> fst (addTransaction examplePlatform bigTx stalePool)
       = Inl (Error ''Gas limit exceeds maximum allowed'')"
  apply (simp add: stalePool_def addTransaction_def valid_default new_BatchProcessor_def
           updateConfig_def Let_def)
  apply (simp add: validateTransaction_def defaultConfig_def bigTx_def mkTx_def
           examplePlatform_def alice_def bob_def startsWith_def)
  done

text \<open>
  C7, amended. For every transaction whose digest is already in the pending set,
  \<open>addTransaction\<close> leaves the processor as it was, so nothing is appended and the pending
  count is unchanged; it returns without an error when the transaction passes validation
  under the current configuration, and raises the validation error otherwise.
\<close>

theorem addTransaction_duplicate_noop:
  assumes "generateTransactionHash pf tx \<in> transactionHashes bp"
  shows "snd (addTransaction pf tx bp) = bp
       \<and> getPendingTransactionCount (snd (addTransaction pf tx bp)) = getPendingTransactionCount bp
       \<and> (validateTransaction pf (config bp) tx = None \<longrightarrow> fst (addTransaction pf tx bp) = Inr ())
       \<and> (\<forall>e. validateTransaction pf (config bp) tx = Some e
              \<longrightarrow> fst (addTransaction pf tx bp) = Inl e)"
  using assms by (simp add: addTransaction_def Let_def split: option.splits)

theorem addTransaction_duplicate_noop_witness:
  "generateTransactionHash examplePlatform t1 \<in> transactionHashes pool1
   \<and> validateTransaction examplePlatform (config pool1) t1 = None
   \<and> addTransaction examplePlatform t1 pool1 = (Inr (), pool1)
   \<and> getPendingTransactionCount (snd (addTransaction examplePlatform t1 pool1)) = 1
   \<and> generateTransactionHash examplePlatform bigTx \<in> transactionHashes stalePool
   \<and> validateTransaction examplePlatform (config stalePool) bigTx
       = Some (Error ''Gas limit exceeds maximum allowed'')
   \<and> addTransaction examplePlatform bigTx stalePool
       = (Inl (Error ''Gas limit exceeds maximum allowed''), stalePool)"
proof -
  have h: "generateTransactionHash examplePlatform t1 \<in> transactionHashes pool1"
    by (simp add: pool1_eq)
  have v: "validateTransaction examplePlatform (config pool1) t1 = None"
    by (simp add: pool1_eq new_BatchProcessor_def valid_default)
  have c: "getPendingTransactionCount pool1 = 1"
    by (simp add: pool1_eq getPendingTransactionCount_def)
  have h': "generateTransactionHash examplePlatform bigTx \<in> transactionHashes stalePool"
    by (simp add: stalePool_def addTransaction_def valid_default new_BatchProcessor_def
          updateConfig_def Let_def)
  have v': "validateTransaction examplePlatform (config stalePool) bigTx
              = Some (Error ''Gas limit exceeds maximum allowed'')"
    by (simp add: stalePool_def addTransaction_def valid_default new_BatchProcessor_def
          updateConfig_def Let_def validateTransaction_def defaultConfig_def bigTx_def mkTx_def
          examplePlatform_def alice_def bob_def startsWith_def)
  from addTransaction_duplicate_noop [OF h] addTransaction_duplicate_noop [OF h'] v c v'
  show ?thesis using h h' by (simp add: prod_eq_iff)
qed


section \<open>The proof cache\<close>

text \<open>The cache key reads the sender, the recipient, the value and the nonce, and nothing else.\<close>

lemma generateCacheKey_ignores:
  "map (\<lambda>tx. (tx_from tx, tx_to tx, tx_value tx, nonce tx)) txs
     = map (\<lambda>tx. (tx_from tx, tx_to tx, tx_value tx, nonce tx)) txs'
   \<Longrightarrow> generateCacheKey txs i = generateCacheKey txs' i"
proof -
  assume a: "map (\<lambda>tx. (tx_from tx, tx_to tx, tx_value tx, nonce tx)) txs
     = map (\<lambda>tx. (tx_from tx, tx_to tx, tx_value tx, nonce tx)) txs'"
  let ?f = "\<lambda>(f, t, v, n). f @ ''_'' @ t @ ''_'' @ v @ ''_'' @ string_of_int n"
  have "map ?f (map (\<lambda>tx. (tx_from tx, tx_to tx, tx_value tx, nonce tx)) txs)
      = map ?f (map (\<lambda>tx. (tx_from tx, tx_to tx, tx_value tx, nonce tx)) txs')"
    using a by simp
  then have "map (\<lambda>tx. tx_from tx @ ''_'' @ tx_to tx @ ''_'' @ tx_value tx @ ''_'' @ string_of_int (nonce tx)) txs
      = map (\<lambda>tx. tx_from tx @ ''_'' @ tx_to tx @ ''_'' @ tx_value tx @ ''_'' @ string_of_int (nonce tx)) txs'"
    by (simp add: comp_def)
  then show ?thesis by (simp add: generateCacheKey_def)
qed

text \<open>
  C6. The generator \<open>warm\<close> has completed a proof for the transaction set \<open>cheap\<close> at batch
  index 5. A second request for \<open>cheap\<close> at index 5 is answered from the cache. The set
  \<open>dear\<close> differs from \<open>cheap\<close> in the gas price; its cache key is the same, so a request
  for \<open>dear\<close> at index 5 is answered with the proof of \<open>cheap\<close>, which is not the proof the
  Prover gives for \<open>dear\<close>.
\<close>

theorem cache_key_ignores_gas_price:
  "cheap \<noteq> dear
   \<and> generateCacheKey dear 5 = generateCacheKey cheap 5
   \<and> fst (generateProof_begin cheap 5 warm) = Cached (projr (digestProver cheap 5))
   \<and> fst (generateProof_begin dear 5 warm) = Cached (projr (digestProver cheap 5))
   \<and> fst (generateProof digestProver dear 5 warm) = digestProver cheap 5
   \<and> digestProver dear 5 \<noteq> digestProver cheap 5"
proof -
  have k: "generateCacheKey dear 5 = generateCacheKey cheap 5"
    by (rule generateCacheKey_ignores) (simp add: dear_def cheap_def mkTx_def)
  have d: "digestProver dear 5 \<noteq> digestProver cheap 5"
    by (simp add: digestProver_def dear_def cheap_def generateTransactionHash_def
          examplePlatform_def JSON_stringify_def mkTx_def json_key_def json_string_def
          alice_def bob_def string_of_int_def string_of_nat.simps)
  have p: "digestProver cheap 5 = Inr (projr (digestProver cheap 5))"
    by (simp add: digestProver_def)
  have c: "cheap \<noteq> dear" by (simp add: cheap_def dear_def mkTx_def)
  show ?thesis using k d c p
    by (simp add: generateProof_def generateProof_begin_def warm_eq)
qed

text \<open>
  C10. A request that reaches the Prover and is rejected: the error is the result of
  \<open>generateProof\<close>, the cache is what it was, and no entry for the batch index is left in
  \<open>pendingProofs\<close>. A repeat of the request invokes the Prover again and returns whatever
  the Prover then answers; any later request for the same batch index is either answered
  with a proof that was in the cache before the failure or invokes the Prover. The last
  conjunct is the continuation alone, on any generator state: it removes the pending entry
  and passes the error on.
\<close>

theorem prover_failure_not_cached:
  assumes "fst (generateProof_begin transactions batchIdx g) = Invoked (transactions, batchIdx)"
      and "prover transactions batchIdx = Inl e"
  shows "fst (generateProof prover transactions batchIdx g) = Inl e
       \<and> proofCache (snd (generateProof prover transactions batchIdx g)) = proofCache g
       \<and> pendingProofs (snd (generateProof prover transactions batchIdx g)) batchIdx = None
       \<and> fst (generateProof_begin transactions batchIdx
                (snd (generateProof prover transactions batchIdx g)))
           = Invoked (transactions, batchIdx)
       \<and> (\<forall>prover'. fst (generateProof prover' transactions batchIdx
                             (snd (generateProof prover transactions batchIdx g)))
                       = prover' transactions batchIdx)
       \<and> (\<forall>txs'. (\<exists>proof. fst (generateProof_begin txs' batchIdx
                                  (snd (generateProof prover transactions batchIdx g)))
                             = Cached proof
                         \<and> proofCache g (generateCacheKey txs' batchIdx) = Some proof)
                \<or> fst (generateProof_begin txs' batchIdx
                         (snd (generateProof prover transactions batchIdx g)))
                    = Invoked (txs', batchIdx))
       \<and> (\<forall>g2. generateProof_resume transactions batchIdx (Inl e) g2
                  = (Inl e, g2\<lparr>pendingProofs := (pendingProofs g2)(batchIdx := None)\<rparr>))"
  using assms
  by (simp add: generateProof_def generateProof_begin_def generateProof_resume_def
        doGenerateProof_def Let_def split: option.splits sum.splits)

theorem prover_failure_not_cached_witness:
  "fst (generateProof_begin cheap 5 new_ProofGenerator) = Invoked (cheap, 5)
   \<and> failingProver cheap 5 = Inl (Error ''proof generation failed'')
   \<and> generateProof failingProver cheap 5 new_ProofGenerator
       = (Inl (Error ''proof generation failed''), new_ProofGenerator)
   \<and> fst (generateProof digestProver cheap 5
            (snd (generateProof failingProver cheap 5 new_ProofGenerator)))
       = digestProver cheap 5"
proof -
  have a: "fst (generateProof_begin cheap 5 new_ProofGenerator) = Invoked (cheap, 5)"
    by (simp add: generateProof_begin_def new_ProofGenerator_def)
  have b: "failingProver cheap 5 = Inl (Error ''proof generation failed'')"
    by (simp add: failingProver_def)
  have c: "generateProof failingProver cheap 5 new_ProofGenerator
             = (Inl (Error ''proof generation failed''), new_ProofGenerator)"
    by (simp add: generateProof_def generateProof_begin_def generateProof_resume_def
          doGenerateProof_def failingProver_def new_ProofGenerator_def)
  from prover_failure_not_cached [of cheap 5 new_ProofGenerator failingProver
         "Error ''proof generation failed''", OF a b]
  show ?thesis using a b c by simp
qed


section \<open>Fee priority\<close>











end
